theory Spec2Isabelle
  imports Main
begin

section \<open>JavaScript strings and values\<close>

text \<open>
  A JavaScript string is modelled as a \<open>string\<close> whose characters are code units below 256
  (the Latin-1 range). \<open>is_ws\<close> is the set of characters \<open>String.prototype.trim\<close> removes
  within that range: TAB, LF, VT, FF, CR, SPACE and NO-BREAK SPACE.
\<close>

definition is_ws :: "char \<Rightarrow> bool" where
  "is_ws c = (of_char c \<in> {9, 10, 11, 12, 13, 32, 160 :: nat})"

definition trim :: "string \<Rightarrow> string" where
  "trim s = rev (dropWhile is_ws (rev (dropWhile is_ws s)))"

text \<open>
  \<open>toLowerCase\<close> on one code unit: the ASCII capitals and the Latin-1 capitals (all of
  0xC0..0xDE but the multiplication sign 0xD7) move up by 32.
\<close>

definition to_lower :: "char \<Rightarrow> char" where
  "to_lower c =
     (let n = (of_char c :: nat)
      in if (65 \<le> n \<and> n \<le> 90) \<or> (192 \<le> n \<and> n \<le> 222 \<and> n \<noteq> 215)
         then char_of (n + 32) else c)"

definition toLowerCase :: "string \<Rightarrow> string" where
  "toLowerCase s = map to_lower s"

fun startsWith :: "string \<Rightarrow> string \<Rightarrow> bool" where
  "startsWith s [] = True"
| "startsWith [] (p # ps) = False"
| "startsWith (c # cs) (p # ps) = (c = p \<and> startsWith cs ps)"

text \<open>\<open>s.includes(sub)\<close>: \<open>sub\<close> occurs in \<open>s\<close> at some position.\<close>

fun str_includes :: "string \<Rightarrow> string \<Rightarrow> bool" where
  "str_includes [] sub = (sub = [])"
| "str_includes (c # cs) sub = (startsWith (c # cs) sub \<or> str_includes cs sub)"

text \<open>
  The values the program handles as \<open>unknown\<close>: what \<open>JSON.parse\<close> returns, plus
  \<open>undefined\<close> for an absent property. An object lists its own properties, the first
  binding of a key being the property's value. The numeric value of a number is never
  inspected by the code modelled here.
\<close>

datatype jsval =
    Undefined
  | Null
  | Bool bool
  | Num int
  | Str string
  | Arr "jsval list"
  | Obj "(string \<times> jsval) list"

text \<open>Truthiness, as \<open>!v\<close> and \<open>if (v)\<close> test it.\<close>

fun truthy :: "jsval \<Rightarrow> bool" where
  "truthy Undefined = False"
| "truthy Null = False"
| "truthy (Bool b) = b"
| "truthy (Num n) = (n \<noteq> 0)"
| "truthy (Str s) = (s \<noteq> [])"
| "truthy (Arr xs) = True"
| "truthy (Obj kvs) = True"

text \<open>\<open>typeof v === "object"\<close>; \<open>null\<close> and arrays answer "object" too.\<close>

fun typeof_object :: "jsval \<Rightarrow> bool" where
  "typeof_object Null = True"
| "typeof_object (Arr xs) = True"
| "typeof_object (Obj kvs) = True"
| "typeof_object v = False"

text \<open>
  Property access \<open>v[key]\<close> on a value already known to be an object. The keys the program
  reads are fixed names, none of them an array index, \<open>length\<close> or an inherited property,
  so an array has none of them.
\<close>

fun get_prop :: "jsval \<Rightarrow> string \<Rightarrow> jsval" where
  "get_prop (Obj kvs) key = (case map_of kvs key of None \<Rightarrow> Undefined | Some v \<Rightarrow> v)"
| "get_prop v key = Undefined"

text \<open>A \<open>string | null\<close> is a \<open>string option\<close>; it is truthy when it is a non-empty string.\<close>

fun truthy_str :: "string option \<Rightarrow> bool" where
  "truthy_str None = False"
| "truthy_str (Some s) = (s \<noteq> [])"

section \<open>The media-control module (src/unnamed/part_004): normalising the payload and deriving the query\<close>

datatype LookupKind = Track | Artist | Album

fun CACHE_KEYS :: "LookupKind \<Rightarrow> string" where
  "CACHE_KEYS Track = ''cached-eligible-media-track''"
| "CACHE_KEYS Artist = ''cached-eligible-media-artist''"
| "CACHE_KEYS Album = ''cached-eligible-media-album''"

definition readStringField :: "jsval \<Rightarrow> string \<Rightarrow> string" where
  "readStringField payload key =
     (if \<not> truthy payload \<or> \<not> typeof_object payload then []
      else (case get_prop payload key of Str s \<Rightarrow> trim s | _ \<Rightarrow> []))"

definition asPayloadRecord :: "jsval \<Rightarrow> jsval" where
  "asPayloadRecord payload =
     (if \<not> truthy payload \<or> \<not> typeof_object payload then Null else payload)"

text \<open>\<open>[title, artist].filter(Boolean).join(" ")\<close>: the non-empty strings, one space between.\<close>

fun join_space :: "string list \<Rightarrow> string" where
  "join_space [] = []"
| "join_space [x] = x"
| "join_space (x # y # ys) = x @ '' '' @ join_space (y # ys)"

definition formatNowPlayingSearchQuery :: "jsval \<Rightarrow> string option" where
  "formatNowPlayingSearchQuery payload =
     (let title = readStringField payload ''title'';
          artist = readStringField payload ''artist''
      in if title = [] then None
         else Some (join_space (filter (\<lambda>s. s \<noteq> []) [title, artist])))"

definition formatNowPlayingAlbumSearchQuery :: "jsval \<Rightarrow> string option" where
  "formatNowPlayingAlbumSearchQuery payload =
     (let album = readStringField payload ''album''
      in if album = [] then None else Some album)"

definition queryForLookupKind :: "jsval \<Rightarrow> LookupKind \<Rightarrow> string option" where
  "queryForLookupKind payload kind =
     (let album = readStringField payload ''album''
      in if album = [] then None
         else if kind = Album then formatNowPlayingAlbumSearchQuery payload
         else formatNowPlayingSearchQuery payload)"

section \<open>The media-control module (src/unnamed/part_004): the probe\<close>

text \<open>
  What the \<open>try\<close> block of the probe can catch: the rejection of \<open>execFile\<close> (an
  \<open>Error\<close> with a string code such as \<open>ENOENT\<close>, a numeric exit code, or none) and the
  \<open>SyntaxError\<close> of \<open>JSON.parse\<close> (no code). Both are \<open>Error\<close> instances, so
  \<open>error.message\<close> is a string.
\<close>

datatype err_code = No_code | Str_code string | Num_code int

record js_error =
  code :: err_code
  message :: string

text \<open>
  \<open>String(error.code || "")\<close> is \<open>"ENOENT"\<close> exactly when the code is that string: a
  numeric code prints as a numeral.
\<close>

definition isMissingBinaryError :: "js_error \<Rightarrow> bool" where
  "isMissingBinaryError err =
     (if code err = Str_code ''ENOENT'' then True
      else str_includes (message err) ''ENOENT''
           \<or> str_includes (toLowerCase (message err)) ''not found'')"

text \<open>
  A string whose only use is to be handed to \<open>JSON.parse\<close> (the probe's standard output, a
  stored cache value) is represented by what \<open>JSON.parse\<close> makes of it: the empty string,
  a string the parser rejects (with the message of its \<open>SyntaxError\<close>), or the text of a
  JSON value. \<open>JSON.stringify\<close> is applied to trees of JSON values only, which parse back
  to themselves.
\<close>

datatype js_text = Empty_text | Bad_text string | Json_text jsval

fun JSON_parse :: "js_text \<Rightarrow> js_error + jsval" where
  "JSON_parse Empty_text = Inl \<lparr>code = No_code, message = ''Unexpected end of JSON input''\<rparr>"
| "JSON_parse (Bad_text m) = Inl \<lparr>code = No_code, message = m\<rparr>"
| "JSON_parse (Json_text v) = Inr v"

definition JSON_stringify :: "jsval \<Rightarrow> js_text" where
  "JSON_stringify v = Json_text v"

text \<open>
  The outcome of \<open>execFileAsync(binary, ["get"], ...)\<close>: rejected, or resolved with the
  standard output and the standard error. Timeout, buffer cap and environment are the
  caller's fixed arguments; the outcome is the environment's answer for that binary.
\<close>

datatype exec_result = Rejected js_error | Resolved js_text string

record MediaControlDebugInfo =
  query :: "string option"
  stdout :: js_text
  stderr :: string
  error :: "string option"
  payload :: jsval
  binary :: "string option"
  attempts :: "string list"
  isNotInstalled :: bool

definition candidates :: "string list" where
  "candidates =
     [''media-control'',
      ''/opt/homebrew/bin/media-control'',
      ''/usr/local/bin/media-control'',
      ''/opt/local/bin/media-control'',
      ''/opt/homebrew/opt/media-control/bin/media-control'',
      ''/usr/local/opt/media-control/bin/media-control'']"

text \<open>The \<open>try\<close> block for one candidate: run it, parse its output.\<close>

definition run_candidate ::
  "(string \<Rightarrow> exec_result) \<Rightarrow> string \<Rightarrow> js_error + (js_text \<times> string \<times> jsval)" where
  "run_candidate exec b =
     (case exec b of
        Rejected e \<Rightarrow> Inl e
      | Resolved out errout \<Rightarrow>
          (case JSON_parse out of Inl e \<Rightarrow> Inl e | Inr v \<Rightarrow> Inr (out, errout, v)))"

text \<open>
  The \<open>for\<close> loop over the candidates, with its two accumulators: it returns from the
  function at the first candidate that runs and parses, or falls through with the attempt
  notes and the count of missing-binary failures.
\<close>

datatype loop_result = Returned MediaControlDebugInfo | Exhausted "string list" nat

fun try_candidates ::
  "(string \<Rightarrow> exec_result) \<Rightarrow> string list \<Rightarrow> string list \<Rightarrow> nat \<Rightarrow> loop_result" where
  "try_candidates exec [] atts missingBinaryAttempts = Exhausted atts missingBinaryAttempts"
| "try_candidates exec (b # bs) atts missingBinaryAttempts =
     (case run_candidate exec b of
        Inr (out, errout, v) \<Rightarrow>
          Returned \<lparr>query = formatNowPlayingSearchQuery v, stdout = out, stderr = errout,
                    error = None, payload = v, binary = Some b, attempts = atts,
                    isNotInstalled = False\<rparr>
      | Inl e \<Rightarrow>
          try_candidates exec bs (atts @ [b @ '': '' @ message e])
            (if isMissingBinaryError e then missingBinaryAttempts + 1
             else missingBinaryAttempts))"

definition inspectNowPlaying :: "string \<Rightarrow> (string \<Rightarrow> exec_result) \<Rightarrow> MediaControlDebugInfo" where
  "inspectNowPlaying platform exec =
     (if platform \<noteq> ''darwin'' then
        \<lparr>query = None, stdout = Empty_text, stderr = [],
         error = Some ''media-control is only supported on macOS'', payload = Null,
         binary = None, attempts = [], isNotInstalled = False\<rparr>
      else
        (case try_candidates exec candidates [] 0 of
           Returned info \<Rightarrow> info
         | Exhausted atts missingBinaryAttempts \<Rightarrow>
             \<lparr>query = None, stdout = Empty_text, stderr = [],
              error = Some (if atts = [] \<or> last atts = []
                            then ''Failed to execute media-control'' else last atts),
              payload = Null, binary = None, attempts = atts,
              isNotInstalled = (missingBinaryAttempts = length candidates)\<rparr>))"

section \<open>The media-control module (src/unnamed/part_004): the per-kind cache of the last eligible payload\<close>

text \<open>
  Raycast's \<open>LocalStorage\<close>: values are strings, numbers or booleans. Its operations are
  promises; a rejected promise is \<open>Inl\<close>. While \<open>fault\<close> holds an error every operation
  rejects with it.
\<close>

datatype ls_value = LS_string js_text | LS_number int | LS_boolean bool

record LocalStorage =
  items :: "string \<rightharpoonup> ls_value"
  fault :: "js_error option"

definition LocalStorage_setItem :: "LocalStorage \<Rightarrow> string \<Rightarrow> ls_value \<Rightarrow> js_error + LocalStorage" where
  "LocalStorage_setItem st key v =
     (case fault st of Some e \<Rightarrow> Inl e | None \<Rightarrow> Inr (st\<lparr>items := (items st)(key \<mapsto> v)\<rparr>))"

definition LocalStorage_getItem :: "LocalStorage \<Rightarrow> string \<Rightarrow> js_error + ls_value option" where
  "LocalStorage_getItem st key =
     (case fault st of Some e \<Rightarrow> Inl e | None \<Rightarrow> Inr (items st key))"

text \<open>The \<open>try\<close> block of \<open>saveEligibleMedia\<close>; \<open>now\<close> is \<open>Date.now()\<close>.\<close>

definition saveEligibleMedia_try :: "LocalStorage \<Rightarrow> int \<Rightarrow> LookupKind \<Rightarrow> jsval \<Rightarrow> js_error + LocalStorage" where
  "saveEligibleMedia_try st now kind pl =
     LocalStorage_setItem st (CACHE_KEYS kind)
       (LS_string (JSON_stringify (Obj [(''payload'', pl), (''cachedAt'', Num now)])))"

definition saveEligibleMedia :: "LocalStorage \<Rightarrow> int \<Rightarrow> LookupKind \<Rightarrow> jsval \<Rightarrow> js_error + LocalStorage" where
  "saveEligibleMedia st now kind pl =
     (case saveEligibleMedia_try st now kind pl of
        Inl e \<Rightarrow> Inr st
      | Inr st' \<Rightarrow> Inr st')"

text \<open>The \<open>try\<close> block of \<open>readEligibleMedia\<close>.\<close>

definition readEligibleMedia_try :: "LocalStorage \<Rightarrow> LookupKind \<Rightarrow> js_error + jsval" where
  "readEligibleMedia_try st kind =
     (case LocalStorage_getItem st (CACHE_KEYS kind) of
        Inl e \<Rightarrow> Inl e
      | Inr cachedRaw \<Rightarrow>
          (case cachedRaw of
             Some (LS_string t) \<Rightarrow>
               if t = Empty_text then Inr Null
               else (case JSON_parse t of
                       Inl e \<Rightarrow> Inl e
                     | Inr parsed \<Rightarrow>
                         if \<not> truthy parsed \<or> \<not> typeof_object parsed then Inr Null
                         else Inr (asPayloadRecord (get_prop parsed ''payload'')))
           | _ \<Rightarrow> Inr Null))"

definition readEligibleMedia :: "LocalStorage \<Rightarrow> LookupKind \<Rightarrow> js_error + jsval" where
  "readEligibleMedia st kind =
     (case readEligibleMedia_try st kind of
        Inl e \<Rightarrow> Inr Null
      | Inr v \<Rightarrow> Inr v)"

section \<open>The media-control module (src/unnamed/part_004): the lookup\<close>

record LookupOptions =
  allowCacheFallbackOnIneligible :: "bool option"

definition inspectNowPlayingForLookup ::
  "string \<Rightarrow> (string \<Rightarrow> exec_result) \<Rightarrow> int \<Rightarrow> LocalStorage \<Rightarrow> LookupKind \<Rightarrow> LookupOptions option
     \<Rightarrow> js_error + (MediaControlDebugInfo \<times> LocalStorage)" where
  "inspectNowPlayingForLookup platform exec now st kind options =
     (let info = inspectNowPlaying platform exec;
          livePayload = asPayloadRecord (payload info);
          allow = (case options of
                     None \<Rightarrow> False
                   | Some opts \<Rightarrow> allowCacheFallbackOnIneligible opts = Some True)
      in if truthy livePayload then
           (let liveQuery = queryForLookupKind livePayload kind
            in if truthy_str liveQuery then
                 (case saveEligibleMedia st now kind livePayload of
                    Inl e \<Rightarrow> Inl e
                  | Inr st' \<Rightarrow> Inr (info\<lparr>payload := livePayload, query := liveQuery\<rparr>, st'))
               else if allow then
                 (case readEligibleMedia st kind of
                    Inl e \<Rightarrow> Inl e
                  | Inr cachedPayload \<Rightarrow>
                      (let cachedQuery = queryForLookupKind cachedPayload kind
                       in if truthy cachedPayload \<and> truthy_str cachedQuery
                          then Inr (info\<lparr>payload := cachedPayload, query := cachedQuery\<rparr>, st)
                          else Inr (info\<lparr>payload := Null, query := None\<rparr>, st)))
               else Inr (info\<lparr>payload := Null, query := None\<rparr>, st))
         else
           (case readEligibleMedia st kind of
              Inl e \<Rightarrow> Inl e
            | Inr cachedPayload \<Rightarrow>
                (let cachedQuery = queryForLookupKind cachedPayload kind
                 in if truthy cachedPayload \<and> truthy_str cachedQuery
                    then Inr (info\<lparr>payload := cachedPayload, query := cachedQuery\<rparr>, st)
                    else Inr (info\<lparr>payload := Null, query := None\<rparr>, st))))"

section \<open>The menu-bar command (src/unnamed/part_003): the displayed state\<close>

text \<open>
  The five status names, and \<open>St_unchecked\<close> for any other truthy value found in the
  cache, which \<open>readCachedState\<close> casts to the status type without a check.
\<close>

datatype Status =
    St_ok
  | St_no_track
  | St_missing_media_control
  | St_unsupported_platform
  | St_error
  | St_unchecked jsval

text \<open>
  The field \<open>error\<close> of the source is \<open>state_error\<close> here (the debug info has a field
  \<open>error\<close> already); \<open>None\<close> is \<open>undefined\<close>.
\<close>

record NowPlayingState =
  track :: string
  artist :: string
  album :: string
  artworkUrl :: string
  status :: Status
  state_error :: "string option"

definition LAST_STATE_CACHE_KEY :: string where
  "LAST_STATE_CACHE_KEY = ''last-state''"

definition defaultState :: "string \<Rightarrow> NowPlayingState" where
  "defaultState platform =
     \<lparr>track = [], artist = [], album = [], artworkUrl = [],
      status = (if platform = ''darwin'' then St_no_track else St_unsupported_platform),
      state_error = None\<rparr>"

fun status_value :: "Status \<Rightarrow> jsval" where
  "status_value St_ok = Str ''ok''"
| "status_value St_no_track = Str ''no-track''"
| "status_value St_missing_media_control = Str ''missing-media-control''"
| "status_value St_unsupported_platform = Str ''unsupported-platform''"
| "status_value St_error = Str ''error''"
| "status_value (St_unchecked v) = v"

definition status_of :: "jsval \<Rightarrow> Status" where
  "status_of v =
     (if v = Str ''ok'' then St_ok
      else if v = Str ''no-track'' then St_no_track
      else if v = Str ''missing-media-control'' then St_missing_media_control
      else if v = Str ''unsupported-platform'' then St_unsupported_platform
      else if v = Str ''error'' then St_error
      else St_unchecked v)"

text \<open>The object \<open>JSON.stringify\<close> writes for a state: an undefined \<open>error\<close> is left out.\<close>

definition state_value :: "NowPlayingState \<Rightarrow> jsval" where
  "state_value s =
     Obj ([(''track'', Str (track s)), (''artist'', Str (artist s)), (''album'', Str (album s)),
           (''artworkUrl'', Str (artworkUrl s)), (''status'', status_value (status s))]
          @ (case state_error s of None \<Rightarrow> [] | Some e \<Rightarrow> [(''error'', Str e)]))"

text \<open>Raycast's \<open>Cache\<close> of the menu-bar command: string keys, string values.\<close>

type_synonym menubar_cache = "string \<rightharpoonup> js_text"

definition readCachedState :: "menubar_cache \<Rightarrow> NowPlayingState option" where
  "readCachedState cache =
     (case cache LAST_STATE_CACHE_KEY of
        None \<Rightarrow> None
      | Some raw \<Rightarrow>
          if raw = Empty_text then None
          else (case JSON_parse raw of
                  Inl e \<Rightarrow> None
                | Inr parsed \<Rightarrow>
                    if \<not> truthy parsed \<or> \<not> typeof_object parsed then None
                    else (case (get_prop parsed ''track'', get_prop parsed ''artist'',
                                get_prop parsed ''album'', get_prop parsed ''artworkUrl'') of
                            (Str t, Str a, Str al, Str u) \<Rightarrow>
                              if \<not> truthy (get_prop parsed ''status'') then None
                              else Some \<lparr>track = t, artist = a, album = al, artworkUrl = u,
                                         status = status_of (get_prop parsed ''status''),
                                         state_error =
                                           (case get_prop parsed ''error'' of
                                              Str e \<Rightarrow> Some e
                                            | _ \<Rightarrow> None)\<rparr>
                          | _ \<Rightarrow> None)))"

definition writeCachedState :: "NowPlayingState \<Rightarrow> menubar_cache \<Rightarrow> menubar_cache" where
  "writeCachedState s cache =
     (if status s \<noteq> St_ok \<or> track s = [] then cache
      else cache(LAST_STATE_CACHE_KEY \<mapsto> JSON_stringify (state_value s)))"

section \<open>The menu-bar command (src/unnamed/part_003): artwork\<close>

text \<open>
  The test \<open>/^(https?:\/\/|data:|file:\/\/)/i\<close>: the pattern is ASCII, and without the
  \<open>u\<close> flag only the ASCII capitals fold onto its letters, so the test is a prefix test
  on the lower-cased string.
\<close>

definition has_url_scheme :: "string \<Rightarrow> bool" where
  "has_url_scheme raw =
     (let l = toLowerCase raw
      in startsWith l ''http://'' \<or> startsWith l ''https://''
         \<or> startsWith l ''data:'' \<or> startsWith l ''file://'')"

definition toArtworkDataUri :: "string \<Rightarrow> string \<Rightarrow> string" where
  "toArtworkDataUri data mimeType =
     (let raw = trim data
      in if raw = [] then []
         else if has_url_scheme raw then raw
         else (let mime = (if trim mimeType = [] then ''image/jpeg'' else trim mimeType)
               in ''data:'' @ mime @ '';base64,'' @ raw))"

text \<open>The loop over the keys of a nested artwork object; \<open>None\<close> when it falls through.\<close>

fun nested_artwork :: "jsval \<Rightarrow> string \<Rightarrow> string list \<Rightarrow> string option" where
  "nested_artwork dataObject artworkMimeType [] = None"
| "nested_artwork dataObject artworkMimeType (key # keys) =
     (case get_prop dataObject key of
        Str v \<Rightarrow>
          if trim v \<noteq> [] then
            Some (toArtworkDataUri v
                    (case get_prop dataObject ''mimeType'' of
                       Str m \<Rightarrow> if trim m \<noteq> [] then trim m else artworkMimeType
                     | _ \<Rightarrow> artworkMimeType))
          else nested_artwork dataObject artworkMimeType keys
      | _ \<Rightarrow> nested_artwork dataObject artworkMimeType keys)"

text \<open>The loop over the flat keys of the payload.\<close>

fun flat_artwork :: "jsval \<Rightarrow> string list \<Rightarrow> string" where
  "flat_artwork pl [] = []"
| "flat_artwork pl (key # keys) =
     (let v = readStringField pl key in if v \<noteq> [] then v else flat_artwork pl keys)"

definition readArtworkUrl :: "jsval \<Rightarrow> string" where
  "readArtworkUrl pl =
     (let artworkMimeType =
            (if readStringField pl ''artworkMimeType'' = [] then ''image/jpeg''
             else readStringField pl ''artworkMimeType'');
          artworkData =
            (if truthy pl \<and> typeof_object pl then get_prop pl ''artworkData'' else Undefined);
          flat = flat_artwork pl
                   [''artwork_url'', ''artworkUrl'', ''artwork'', ''album_art_url'',
                    ''albumArtUrl'', ''image'', ''thumbnail'']
      in case artworkData of
           Str d \<Rightarrow> if trim d \<noteq> [] then toArtworkDataUri d artworkMimeType else flat
         | _ \<Rightarrow>
             if truthy artworkData \<and> typeof_object artworkData then
               (case nested_artwork artworkData artworkMimeType
                       [''url'', ''src'', ''data'', ''image'', ''artwork_url'', ''artworkUrl''] of
                  Some u \<Rightarrow> u
                | None \<Rightarrow> flat)
             else flat)"

section \<open>The menu-bar command (src/unnamed/part_003): the command\<close>

text \<open>
  The command's React state, its in-flight flag, and the cache of the last displayed
  state, which outlives the command.
\<close>

record Menubar =
  state :: NowPlayingState
  hasInitialized :: bool
  inFlightRef :: bool
  menubarCache :: menubar_cache

text \<open>The comparison of all six fields that the three setters share.\<close>

definition same_fields :: "NowPlayingState \<Rightarrow> NowPlayingState \<Rightarrow> bool" where
  "same_fields prev next =
     (track prev = track next \<and> artist prev = artist next \<and> album prev = album next
      \<and> artworkUrl prev = artworkUrl next \<and> status prev = status next
      \<and> state_error prev = state_error next)"

definition setStateIfChanged :: "NowPlayingState \<Rightarrow> NowPlayingState \<Rightarrow> NowPlayingState" where
  "setStateIfChanged prev next = (if same_fields prev next then prev else next)"

definition setStatePreservingLastNowPlaying :: "NowPlayingState \<Rightarrow> NowPlayingState \<Rightarrow> NowPlayingState" where
  "setStatePreservingLastNowPlaying prev next =
     (if status prev = St_ok \<and> track prev \<noteq> [] then prev
      else if same_fields prev next then prev
      else next)"

text \<open>
  The updater of \<open>setNowPlayingState\<close>: it returns the new state and, through
  \<open>writeCachedState\<close>, the new cache.
\<close>

definition setNowPlayingState ::
  "NowPlayingState \<Rightarrow> menubar_cache \<Rightarrow> string \<Rightarrow> string \<Rightarrow> string \<Rightarrow> string
     \<Rightarrow> NowPlayingState \<times> menubar_cache" where
  "setNowPlayingState prev cache track' artist' album' artworkUrl' =
     (let sameAlbum = (album prev \<noteq> [] \<and> album' \<noteq> [] \<and> album prev = album');
          reusableArtwork = (if sameAlbum then artworkUrl prev else []);
          resolvedArtworkUrl =
            (if artworkUrl' \<noteq> [] then artworkUrl'
             else if reusableArtwork \<noteq> [] then reusableArtwork else [])
      in if resolvedArtworkUrl = [] \<and> status prev = St_ok \<and> track prev \<noteq> [] then (prev, cache)
         else
           (let next = \<lparr>track = track', artist = artist', album = album',
                        artworkUrl = resolvedArtworkUrl, status = St_ok, state_error = None\<rparr>;
                cache' = writeCachedState next cache
            in if same_fields prev next then (prev, cache') else (next, cache')))"

text \<open>
  The body of \<open>refreshNowPlaying\<close> between \<open>try\<close> and \<open>finally\<close>, given how the awaited
  lookup ended: with a result, or with a thrown error (the \<open>catch\<close> branch).
\<close>

definition applyLookup :: "js_error + MediaControlDebugInfo \<Rightarrow> Menubar \<Rightarrow> Menubar" where
  "applyLookup outcome w =
     (case outcome of
        Inr info \<Rightarrow>
          (let track' = readStringField (payload info) ''title'';
               artist' = readStringField (payload info) ''artist'';
               album' = readStringField (payload info) ''album'';
               artworkUrl' = readArtworkUrl (payload info)
           in if isNotInstalled info then
                w\<lparr>state := setStateIfChanged (state w)
                     \<lparr>track = [], artist = [], album = [], artworkUrl = [],
                      status = St_missing_media_control,
                      state_error = (if truthy_str (error info) then error info else None)\<rparr>\<rparr>
              else if track' \<noteq> [] then
                (case setNowPlayingState (state w) (menubarCache w) track' artist' album' artworkUrl' of
                   (s, c) \<Rightarrow> w\<lparr>state := s, menubarCache := c\<rparr>)
              else if truthy_str (query info) \<or> truthy (payload info) then
                w\<lparr>state := setStatePreservingLastNowPlaying (state w)
                     \<lparr>track = [], artist = [], album = [], artworkUrl = [],
                      status = St_no_track, state_error = None\<rparr>\<rparr>
              else
                w\<lparr>state := setStatePreservingLastNowPlaying (state w)
                     \<lparr>track = [], artist = [], album = [], artworkUrl = [],
                      status = St_error,
                      state_error = (if truthy_str (error info) then error info else None)\<rparr>\<rparr>)
      | Inl e \<Rightarrow>
          w\<lparr>state := setStatePreservingLastNowPlaying (state w)
               \<lparr>track = [], artist = [], album = [], artworkUrl = [],
                status = St_error, state_error = Some (message e)\<rparr>\<rparr>)"

text \<open>
  \<open>refreshNowPlaying\<close>: the guard, the lookup for kind track with the cache fallback
  allowed, the transition, and the \<open>finally\<close> block. The local storage it reads and writes
  is threaded through.
\<close>

definition refreshNowPlaying ::
  "string \<Rightarrow> (string \<Rightarrow> exec_result) \<Rightarrow> int \<Rightarrow> Menubar \<times> LocalStorage \<Rightarrow> Menubar \<times> LocalStorage" where
  "refreshNowPlaying platform exec now ws =
     (case ws of (w, st) \<Rightarrow>
        if inFlightRef w \<or> platform \<noteq> ''darwin'' then (w, st)
        else
          (let w1 = w\<lparr>inFlightRef := True\<rparr>;
               (w2, st2) =
                 (case inspectNowPlayingForLookup platform exec now st Track
                         (Some \<lparr>allowCacheFallbackOnIneligible = Some True\<rparr>) of
                    Inr (info, st') \<Rightarrow> (applyLookup (Inr info) w1, st')
                  | Inl e \<Rightarrow> (applyLookup (Inl e) w1, st))
           in (w2\<lparr>hasInitialized := True, inFlightRef := False\<rparr>, st2)))"

text \<open>Mounting the command: the initial React state comes from the cache when it can.\<close>

definition Command_mount :: "string \<Rightarrow> menubar_cache \<Rightarrow> Menubar" where
  "Command_mount platform cache =
     \<lparr>state = (case readCachedState cache of Some s \<Rightarrow> s | None \<Rightarrow> defaultState platform),
      hasInitialized = (readCachedState cache \<noteq> None),
      inFlightRef = False,
      menubarCache = cache\<rparr>"

text \<open>The effect run after mounting.\<close>

definition Command_effect ::
  "string \<Rightarrow> (string \<Rightarrow> exec_result) \<Rightarrow> int \<Rightarrow> Menubar \<times> LocalStorage \<Rightarrow> Menubar \<times> LocalStorage" where
  "Command_effect platform exec now ws =
     (case ws of (w, st) \<Rightarrow>
        if platform \<noteq> ''darwin'' then
          (w\<lparr>state := setStateIfChanged (state w)
                \<lparr>track = [], artist = [], album = [], artworkUrl = [],
                 status = St_unsupported_platform, state_error = None\<rparr>\<rparr>, st)
        else refreshNowPlaying platform exec now (w, st))"

text \<open>
  The states the command can be in: it is mounted on an empty cache, or mounted again on
  the cache an earlier run left, and after each mount its effect runs against whatever the
  probe and the local storage (which other commands write too) answer.
\<close>

inductive reachable :: "string \<Rightarrow> Menubar \<Rightarrow> bool" for platform :: string where
  fresh: "reachable platform (Command_mount platform Map.empty)"
| remount: "reachable platform w \<Longrightarrow> reachable platform (Command_mount platform (menubarCache w))"
| effect: "reachable platform w \<Longrightarrow>
     reachable platform (fst (Command_effect platform exec now (w, st)))"

section \<open>Properties of the query functions\<close>

lemma readStringField_absent:
  "(\<forall>s. get_prop pl key = Str s \<longrightarrow> trim s = []) \<Longrightarrow> readStringField pl key = []"
  by (cases "get_prop pl key") (simp_all add: readStringField_def)

lemma readStringField_Str:
  "truthy pl \<Longrightarrow> typeof_object pl \<Longrightarrow> get_prop pl key = Str s \<Longrightarrow> readStringField pl key = trim s"
  by (simp add: readStringField_def)

lemma saveEligibleMedia_returns: "\<exists>st'. saveEligibleMedia st now kind pl = Inr st'"
  by (simp add: saveEligibleMedia_def split: sum.split)

lemma readEligibleMedia_returns: "\<exists>v. readEligibleMedia st kind = Inr v"
  by (simp add: readEligibleMedia_def split: sum.split)

lemma queryForLookupKind_nonempty: "queryForLookupKind pl kind = Some q \<Longrightarrow> q \<noteq> []"
  by (auto simp: queryForLookupKind_def formatNowPlayingSearchQuery_def
      formatNowPlayingAlbumSearchQuery_def Let_def split: if_splits)

lemma lookup_live_eligible:
  assumes "truthy (payload (inspectNowPlaying platform exec))"
    and "typeof_object (payload (inspectNowPlaying platform exec))"
    and "queryForLookupKind (payload (inspectNowPlaying platform exec)) kind = Some q"
  shows "\<exists>st'. inspectNowPlayingForLookup platform exec now st kind options
           = Inr ((inspectNowPlaying platform exec)\<lparr>query := Some q\<rparr>, st')"
proof -
  obtain st' where s: "saveEligibleMedia st now kind (payload (inspectNowPlaying platform exec)) = Inr st'"
    using saveEligibleMedia_returns by blast
  from queryForLookupKind_nonempty [OF assms(3)] have "q \<noteq> []" .
  with assms s show ?thesis
    by (simp add: inspectNowPlayingForLookup_def asPayloadRecord_def Let_def)
qed

text \<open>
  Claim C5. A payload whose \<open>album\<close> property is absent, not a string, or blank after
  trimming has no query for any lookup kind, whatever its title and artist. A payload with
  title "Song", artist "Artist" and album "Album" has the track query "Song Artist" and the
  album query "Album", and when the probe returns that payload the lookup returns these
  queries.
\<close>

theorem query_requires_album:
  "((\<forall>s. get_prop pl ''album'' = Str s \<longrightarrow> trim s = []) \<longrightarrow> queryForLookupKind pl kind = None)
   \<and> (truthy p \<and> typeof_object p \<and> get_prop p ''title'' = Str ''Song''
        \<and> get_prop p ''artist'' = Str ''Artist'' \<and> get_prop p ''album'' = Str ''Album''
      \<longrightarrow> queryForLookupKind p Track = Some ''Song Artist''
          \<and> queryForLookupKind p Album = Some ''Album''
          \<and> (payload (inspectNowPlaying platform exec) = p
              \<longrightarrow> (\<exists>info st'. inspectNowPlayingForLookup platform exec now st Track options = Inr (info, st')
                       \<and> query info = Some ''Song Artist'')
                \<and> (\<exists>info st'. inspectNowPlayingForLookup platform exec now st Album options = Inr (info, st')
                       \<and> query info = Some ''Album'')))"
proof -
  have a: "(\<forall>s. get_prop pl ''album'' = Str s \<longrightarrow> trim s = []) \<longrightarrow> queryForLookupKind pl kind = None"
    by (simp add: queryForLookupKind_def readStringField_absent)
  have b: "queryForLookupKind p Track = Some ''Song Artist'' \<and> queryForLookupKind p Album = Some ''Album''"
    if h: "truthy p" "typeof_object p" "get_prop p ''title'' = Str ''Song''"
      "get_prop p ''artist'' = Str ''Artist''" "get_prop p ''album'' = Str ''Album''"
  proof -
    have "readStringField p ''title'' = ''Song''" "readStringField p ''artist'' = ''Artist''"
      "readStringField p ''album'' = ''Album''"
      using h by (simp_all add: readStringField_Str trim_def is_ws_def)
    then show ?thesis
      by (simp add: queryForLookupKind_def formatNowPlayingSearchQuery_def
          formatNowPlayingAlbumSearchQuery_def)
  qed
  have c: "(\<exists>info st'. inspectNowPlayingForLookup platform exec now st k options = Inr (info, st')
              \<and> query info = Some q)"
    if "truthy p" "typeof_object p" "queryForLookupKind p k = Some q"
      "payload (inspectNowPlaying platform exec) = p" for k q
  proof -
    from that lookup_live_eligible [of platform exec k q now st options]
    obtain st' where "inspectNowPlayingForLookup platform exec now st k options
           = Inr ((inspectNowPlaying platform exec)\<lparr>query := Some q\<rparr>, st')"
      by auto
    then show ?thesis by simp
  qed
  from a b c show ?thesis by blast
qed


theorem query_requires_album_witness:
  "get_prop (Obj [(''title'', Str ''Song''), (''artist'', Str ''Artist'')]) ''album'' = Undefined
   \<and> queryForLookupKind (Obj [(''title'', Str ''Song''), (''artist'', Str ''Artist'')]) Track = None
   \<and> payload (inspectNowPlaying ''darwin''
        (\<lambda>b. Resolved (Json_text (Obj [(''title'', Str ''Song''), (''artist'', Str ''Artist''),
                                        (''album'', Str ''Album'')])) []))
      = Obj [(''title'', Str ''Song''), (''artist'', Str ''Artist''), (''album'', Str ''Album'')]
   \<and> queryForLookupKind
        (Obj [(''title'', Str ''Song''), (''artist'', Str ''Artist''), (''album'', Str ''Album'')])
        Track = Some ''Song Artist''
   \<and> queryForLookupKind
        (Obj [(''title'', Str ''Song''), (''artist'', Str ''Artist''), (''album'', Str ''Album'')])
        Album = Some ''Album''
   \<and> (\<exists>info st'.
         inspectNowPlayingForLookup ''darwin''
           (\<lambda>b. Resolved (Json_text (Obj [(''title'', Str ''Song''), (''artist'', Str ''Artist''),
                                           (''album'', Str ''Album'')])) [])
           0 \<lparr>items = Map.empty, fault = None\<rparr> Track None = Inr (info, st')
         \<and> query info = Some ''Song Artist'')"
proof -
  let ?p = "Obj [(''title'', Str ''Song''), (''artist'', Str ''Artist''), (''album'', Str ''Album'')]"
  let ?q = "Obj [(''title'', Str ''Song''), (''artist'', Str ''Artist'')]"
  let ?exec = "\<lambda>b::string. Resolved (Json_text ?p) []"
  have h1: "\<forall>s. get_prop ?q ''album'' = Str s \<longrightarrow> trim s = []"
    by simp
  have h2: "truthy ?p \<and> typeof_object ?p \<and> get_prop ?p ''title'' = Str ''Song''
        \<and> get_prop ?p ''artist'' = Str ''Artist'' \<and> get_prop ?p ''album'' = Str ''Album''"
    by simp
  have h3: "payload (inspectNowPlaying ''darwin'' ?exec) = ?p"
    by (simp add: inspectNowPlaying_def candidates_def run_candidate_def)
  from query_requires_album [of ?q Track ?p "''darwin''" ?exec 0
      "\<lparr>items = Map.empty, fault = None\<rparr>" None] h1 h2 h3
  have "queryForLookupKind ?q Track = None" and "queryForLookupKind ?p Track = Some ''Song Artist''"
    and "queryForLookupKind ?p Album = Some ''Album''"
    and "\<exists>info st'. inspectNowPlayingForLookup ''darwin'' ?exec 0
           \<lparr>items = Map.empty, fault = None\<rparr> Track None = Inr (info, st')
         \<and> query info = Some ''Song Artist''"
    by blast+
  with h3 show ?thesis by simp
qed

text \<open>
  Claim C10. For every payload the query for kind artist is the query for kind track: the
  title joined with the artist, present only when album and title are non-empty. It is
  never the artist name alone.
\<close>

theorem artist_query_equals_track_query:
  "queryForLookupKind pl Artist = queryForLookupKind pl Track
   \<and> queryForLookupKind pl Artist =
       (if readStringField pl ''album'' = [] \<or> readStringField pl ''title'' = [] then None
        else Some (if readStringField pl ''artist'' = [] then readStringField pl ''title''
                   else readStringField pl ''title'' @ '' '' @ readStringField pl ''artist''))
   \<and> queryForLookupKind pl Artist \<noteq> Some (readStringField pl ''artist'')"
proof -
  have same: "queryForLookupKind pl Artist = queryForLookupKind pl Track"
    by (simp add: queryForLookupKind_def)
  have joined: "queryForLookupKind pl Artist =
       (if readStringField pl ''album'' = [] \<or> readStringField pl ''title'' = [] then None
        else Some (if readStringField pl ''artist'' = [] then readStringField pl ''title''
                   else readStringField pl ''title'' @ '' '' @ readStringField pl ''artist''))"
    by (simp add: queryForLookupKind_def formatNowPlayingSearchQuery_def Let_def)
  have "queryForLookupKind pl Artist \<noteq> Some (readStringField pl ''artist'')"
  proof (cases "readStringField pl ''artist'' = []")
    case True
    then show ?thesis unfolding joined by simp
  next
    case False
    then show ?thesis unfolding joined by simp
  qed
  with same joined show ?thesis by (intro conjI)
qed

theorem artist_query_equals_track_query_witness:
  "queryForLookupKind
     (Obj [(''title'', Str ''Song''), (''artist'', Str ''Artist''), (''album'', Str ''Album'')]) Artist
   = Some ''Song Artist''
   \<and> queryForLookupKind
     (Obj [(''title'', Str ''Song''), (''artist'', Str ''Artist''), (''album'', Str ''Album'')]) Track
   = Some ''Song Artist''"
proof -
  let ?p = "Obj [(''title'', Str ''Song''), (''artist'', Str ''Artist''), (''album'', Str ''Album'')]"
  have r: "readStringField ?p ''title'' = ''Song''" "readStringField ?p ''artist'' = ''Artist''"
    "readStringField ?p ''album'' = ''Album''"
    by (simp_all add: readStringField_def trim_def is_ws_def)
  have "queryForLookupKind ?p Artist = queryForLookupKind ?p Track
      \<and> queryForLookupKind ?p Artist = Some ''Song Artist''"
    using artist_query_equals_track_query [of ?p] unfolding r by auto
  then show ?thesis by auto
qed

section \<open>Properties of the artwork normalisation\<close>

lemma startsWith_iff: "startsWith s p \<longleftrightarrow> (\<exists>r. s = p @ r)"
  by (induction s p rule: startsWith.induct) auto

lemma trim_keeps_prefix:
  assumes "p \<noteq> []" and "\<not> is_ws (hd p)" and "\<not> is_ws (last p)"
  shows "trim (p @ r) = p @ rev (dropWhile is_ws (rev r))"
proof -
  from assms(1,2) have lead: "dropWhile is_ws (p @ r) = p @ r"
    by (cases p) simp_all
  from assms(1,3) have tail: "dropWhile is_ws (rev p) = rev p"
    by (simp add: dropWhile_eq_self_iff hd_rev)
  have "trim (p @ r) = rev (dropWhile is_ws (rev r @ rev p))"
    unfolding trim_def lead by simp
  also have "dropWhile is_ws (rev r @ rev p) = dropWhile is_ws (rev r) @ rev p"
  proof (cases "\<forall>x\<in>set (rev r). is_ws x")
    case True
    then have "dropWhile is_ws (rev r @ rev p) = dropWhile is_ws (rev p)"
      and "dropWhile is_ws (rev r) = []"
      by (simp_all add: dropWhile_append)
    then show ?thesis by (simp add: tail)
  next
    case False
    then show ?thesis by (simp only: dropWhile_append if_False)
  qed
  finally show ?thesis by simp
qed

lemma startsWith_trim:
  assumes "startsWith d p" and "p \<noteq> []" and "\<not> is_ws (hd p)" and "\<not> is_ws (last p)"
  shows "startsWith (trim d) p"
proof -
  from assms(1) obtain r where "d = p @ r"
    by (auto simp: startsWith_iff)
  with trim_keeps_prefix [OF assms(2-4)] show ?thesis
    by (simp add: startsWith_iff)
qed

lemma startsWith_toLowerCase:
  assumes "startsWith s p" and "map to_lower p = p"
  shows "startsWith (toLowerCase s) p"
proof -
  from assms(1) obtain r where "s = p @ r"
    by (auto simp: startsWith_iff)
  then have "toLowerCase s = p @ map to_lower r"
    by (simp add: toLowerCase_def assms(2))
  then show ?thesis
    by (simp add: startsWith_iff)
qed

lemma scheme_lower:
  "map to_lower ''http://'' = ''http://''" "map to_lower ''https://'' = ''https://''"
  "map to_lower ''data:'' = ''data:''" "map to_lower ''file://'' = ''file://''"
  by (simp_all add: to_lower_def)

lemma has_url_scheme_prefix:
  assumes "startsWith d ''http://'' \<or> startsWith d ''https://''
           \<or> startsWith d ''data:'' \<or> startsWith d ''file://''"
  shows "has_url_scheme (trim d)" and "trim d \<noteq> []"
proof -
  have ws: "\<not> is_ws CHR ''h''" "\<not> is_ws CHR ''d''" "\<not> is_ws CHR ''f''" "\<not> is_ws CHR ''/''"
    "\<not> is_ws CHR '':''"
    by (simp_all add: is_ws_def)
  from assms have "startsWith (trim d) ''http://'' \<or> startsWith (trim d) ''https://''
           \<or> startsWith (trim d) ''data:'' \<or> startsWith (trim d) ''file://''"
    using startsWith_trim [of d "''http://''"] startsWith_trim [of d "''https://''"]
      startsWith_trim [of d "''data:''"] startsWith_trim [of d "''file://''"] ws
    by auto
  then show "has_url_scheme (trim d)"
    using startsWith_toLowerCase [of "trim d"] scheme_lower
    by (auto simp: has_url_scheme_def Let_def)
  then show "trim d \<noteq> []"
    by (auto simp: has_url_scheme_def toLowerCase_def)
qed

text \<open>
  Claim C9, as amended. The input is trimmed first. A string starting with \<open>http://\<close>,
  \<open>https://\<close>, \<open>data:\<close> or \<open>file://\<close> comes back trimmed, so unchanged when it has
  no surrounding whitespace; so does any string whose trimmed form starts with one of the
  four in any letter case. A blank string gives the empty string. Any other string is
  wrapped as \<open>data:<mime>;base64,<trimmed string>\<close> with the trimmed MIME type, or
  \<open>image/jpeg\<close> when the MIME type is blank; "Zm9v" with \<open>image/png\<close> gives
  \<open>data:image/png;base64,Zm9v\<close>.
\<close>

theorem toArtworkDataUri_trims_then_wraps:
  "(startsWith d ''http://'' \<or> startsWith d ''https://''
      \<or> startsWith d ''data:'' \<or> startsWith d ''file://''
     \<longrightarrow> toArtworkDataUri d m = trim d \<and> (trim d = d \<longrightarrow> toArtworkDataUri d m = d))
   \<and> (has_url_scheme (trim d) \<longrightarrow> toArtworkDataUri d m = trim d)
   \<and> (trim d \<noteq> [] \<and> \<not> has_url_scheme (trim d)
       \<longrightarrow> toArtworkDataUri d m
           = ''data:'' @ (if trim m = [] then ''image/jpeg'' else trim m) @ '';base64,'' @ trim d)
   \<and> (trim d = [] \<longrightarrow> toArtworkDataUri d m = [])
   \<and> toArtworkDataUri ''Zm9v'' ''image/png'' = ''data:image/png;base64,Zm9v''
   \<and> toArtworkDataUri ''Zm9v'' '' '' = ''data:image/jpeg;base64,Zm9v''"
proof -
  have a: "toArtworkDataUri d m = trim d" if "has_url_scheme (trim d)"
  proof -
    from that have "trim d \<noteq> []"
      by (auto simp: has_url_scheme_def toLowerCase_def)
    with that show ?thesis
      by (simp add: toArtworkDataUri_def)
  qed
  have b: "toArtworkDataUri d m = trim d"
    if "startsWith d ''http://'' \<or> startsWith d ''https://''
        \<or> startsWith d ''data:'' \<or> startsWith d ''file://''"
    using a has_url_scheme_prefix(1) [OF that] .
  have c: "toArtworkDataUri d m
           = ''data:'' @ (if trim m = [] then ''image/jpeg'' else trim m) @ '';base64,'' @ trim d"
    if "trim d \<noteq> []" "\<not> has_url_scheme (trim d)"
    using that by (simp add: toArtworkDataUri_def)
  have e: "toArtworkDataUri d m = []" if "trim d = []"
    using that by (simp add: toArtworkDataUri_def)
  have f: "toArtworkDataUri ''Zm9v'' ''image/png'' = ''data:image/png;base64,Zm9v''"
    "toArtworkDataUri ''Zm9v'' '' '' = ''data:image/jpeg;base64,Zm9v''"
    by code_simp+
  from a b c e f show ?thesis by simp
qed

theorem toArtworkDataUri_trims_then_wraps_witness:
  "startsWith ''https://a.example/x.png'' ''https://''
   \<and> toArtworkDataUri ''https://a.example/x.png'' ''image/png'' = ''https://a.example/x.png''
   \<and> trim ''Zm9v '' = ''Zm9v'' \<and> \<not> has_url_scheme ''Zm9v''
   \<and> toArtworkDataUri ''Zm9v '' ''image/png'' = ''data:image/png;base64,Zm9v''
   \<and> trim ''  '' = [] \<and> toArtworkDataUri ''  '' ''image/png'' = []"
proof -
  have h1: "startsWith ''https://a.example/x.png'' ''https://''"
    by simp
  have t1: "trim ''https://a.example/x.png'' = ''https://a.example/x.png''"
    by code_simp
  have h2: "trim ''Zm9v '' = ''Zm9v''" "\<not> has_url_scheme ''Zm9v''" "trim ''image/png'' = ''image/png''"
    by code_simp+
  have h3: "trim ''  '' = []"
    by code_simp
  from toArtworkDataUri_trims_then_wraps [of "''https://a.example/x.png''" "''image/png''"] h1 t1
  have r1: "toArtworkDataUri ''https://a.example/x.png'' ''image/png'' = ''https://a.example/x.png''"
    by simp
  from toArtworkDataUri_trims_then_wraps [of "''Zm9v ''" "''image/png''"] h2
  have r2: "toArtworkDataUri ''Zm9v '' ''image/png'' = ''data:image/png;base64,Zm9v''"
    by simp
  from toArtworkDataUri_trims_then_wraps [of "''  ''" "''image/png''"] h3
  have r3: "toArtworkDataUri ''  '' ''image/png'' = []"
    by simp
  from h1 h2 h3 r1 r2 r3 show ?thesis by simp
qed

text \<open>
  Claim C9 as stated fails: a string that starts with \<open>https://\<close> and ends with a space
  is not returned unchanged, and a string of one space is not wrapped.
\<close>

theorem toArtworkDataUri_unchanged_counterexample:
  "startsWith ''https://a '' ''https://''
   \<and> toArtworkDataUri ''https://a '' ''image/png'' = ''https://a''
   \<and> toArtworkDataUri ''https://a '' ''image/png'' \<noteq> ''https://a ''
   \<and> toArtworkDataUri '' '' ''image/png'' = []"
  by code_simp

section \<open>Properties of the probe\<close>

lemma length_filter_full: "length (filter P xs) = length xs \<longleftrightarrow> (\<forall>x\<in>set xs. P x)"
proof (induction xs)
  case Nil
  then show ?case by simp
next
  case (Cons x xs)
  show ?case
  proof (cases "P x")
    case True
    with Cons show ?thesis by simp
  next
    case False
    have "length (filter P xs) \<noteq> Suc (length xs)"
      using length_filter_le [of P xs] by linarith
    with False show ?thesis by simp
  qed
qed

lemma try_candidates_Returned:
  "try_candidates exec bs atts m = Returned info \<Longrightarrow>
     \<not> isNotInstalled info \<and> (\<exists>b\<in>set bs. \<exists>x. run_candidate exec b = Inr x)"
proof (induction bs arbitrary: atts m)
  case Nil
  then show ?case by simp
next
  case (Cons b bs)
  show ?case
  proof (cases "run_candidate exec b")
    case (Inl e)
    with Cons.prems have "try_candidates exec bs (atts @ [b @ '': '' @ message e])
        (if isMissingBinaryError e then m + 1 else m) = Returned info"
      by simp
    from Cons.IH [OF this] show ?thesis by auto
  next
    case (Inr x)
    with Cons.prems show ?thesis
      by (cases x) auto
  qed
qed

lemma try_candidates_Exhausted:
  "try_candidates exec bs atts m = Exhausted atts' m' \<Longrightarrow>
     (\<forall>b\<in>set bs. \<exists>e. run_candidate exec b = Inl e)
     \<and> length atts' = length atts + length bs
     \<and> m' = m + length (filter (\<lambda>b. isMissingBinaryError (projl (run_candidate exec b))) bs)"
proof (induction bs arbitrary: atts m)
  case Nil
  then show ?case by simp
next
  case (Cons b bs)
  show ?case
  proof (cases "run_candidate exec b")
    case (Inl e)
    with Cons.prems have "try_candidates exec bs (atts @ [b @ '': '' @ message e])
        (if isMissingBinaryError e then m + 1 else m) = Exhausted atts' m'"
      by simp
    from Cons.IH [OF this] Inl show ?thesis by auto
  next
    case (Inr x)
    with Cons.prems show ?thesis
      by (cases x) auto
  qed
qed

lemma try_candidates_all_fail:
  "\<forall>b\<in>set bs. \<exists>e. run_candidate exec b = Inl e \<Longrightarrow>
     \<exists>atts' m'. try_candidates exec bs atts m = Exhausted atts' m'"
proof (induction bs arbitrary: atts m)
  case Nil
  then show ?case by simp
next
  case (Cons b bs)
  then obtain e where "run_candidate exec b = Inl e" by auto
  with Cons show ?case by simp
qed

text \<open>
  Claim C3. There are six candidates. The probe reports \<open>isNotInstalled\<close> exactly when the
  platform is \<open>darwin\<close> and every candidate failed with an error that
  \<open>isMissingBinaryError\<close> classifies as a missing binary; all six were then attempted.
  One failure outside that class, such as a permission error, makes it false.
\<close>

theorem notInstalled_iff_every_candidate_missing:
  "length candidates = 6
   \<and> (isNotInstalled (inspectNowPlaying platform exec) \<longleftrightarrow>
        platform = ''darwin''
        \<and> (\<forall>b\<in>set candidates. \<exists>e. run_candidate exec b = Inl e \<and> isMissingBinaryError e))
   \<and> (isNotInstalled (inspectNowPlaying platform exec) \<longrightarrow>
        length (attempts (inspectNowPlaying platform exec)) = 6)
   \<and> ((\<exists>b\<in>set candidates. \<exists>e. run_candidate exec b = Inl e \<and> \<not> isMissingBinaryError e) \<longrightarrow>
        \<not> isNotInstalled (inspectNowPlaying platform exec))"
proof -
  let ?all = "\<forall>b\<in>set candidates. \<exists>e. run_candidate exec b = Inl e \<and> isMissingBinaryError e"
  have six: "length candidates = 6"
    by (simp add: candidates_def)
  have main: "isNotInstalled (inspectNowPlaying platform exec) \<longleftrightarrow> platform = ''darwin'' \<and> ?all"
    and att: "isNotInstalled (inspectNowPlaying platform exec) \<longrightarrow>
        length (attempts (inspectNowPlaying platform exec)) = 6"
  proof -
    show "isNotInstalled (inspectNowPlaying platform exec) \<longleftrightarrow> platform = ''darwin'' \<and> ?all"
    proof (cases "platform = ''darwin''")
      case False
      then show ?thesis by (simp add: inspectNowPlaying_def)
    next
      case True
      show ?thesis
      proof (cases "try_candidates exec candidates [] 0")
        case (Returned info)
        from try_candidates_Returned [OF this]
        have ni: "\<not> isNotInstalled info"
          and ok: "\<exists>b\<in>set candidates. \<exists>x. run_candidate exec b = Inr x"
          by auto
        from ok have "\<not> ?all" by fastforce
        with ni True Returned show ?thesis
          by (simp add: inspectNowPlaying_def)
      next
        case (Exhausted atts' m')
        from try_candidates_Exhausted [OF this]
        have fail: "\<forall>b\<in>set candidates. \<exists>e. run_candidate exec b = Inl e"
          and m': "m' = length (filter (\<lambda>b. isMissingBinaryError (projl (run_candidate exec b))) candidates)"
          by auto
        have "m' = length candidates \<longleftrightarrow>
            (\<forall>b\<in>set candidates. isMissingBinaryError (projl (run_candidate exec b)))"
          unfolding m' by (rule length_filter_full)
        also have "\<dots> \<longleftrightarrow> ?all"
          using fail by fastforce
        finally show ?thesis
          using True Exhausted by (simp add: inspectNowPlaying_def)
      qed
    qed
    show "isNotInstalled (inspectNowPlaying platform exec) \<longrightarrow>
        length (attempts (inspectNowPlaying platform exec)) = 6"
    proof (cases "platform = ''darwin''")
      case False
      then show ?thesis by (simp add: inspectNowPlaying_def)
    next
      case True
      show ?thesis
      proof (cases "try_candidates exec candidates [] 0")
        case (Returned info)
        from try_candidates_Returned [OF this] True Returned show ?thesis
          by (auto simp: inspectNowPlaying_def)
      next
        case (Exhausted atts' m')
        from try_candidates_Exhausted [OF this] have "length atts' = 6"
          by (simp add: six)
        with True Exhausted show ?thesis
          by (simp add: inspectNowPlaying_def)
      qed
    qed
  qed
  have part: "\<not> isNotInstalled (inspectNowPlaying platform exec)"
    if "\<exists>b\<in>set candidates. \<exists>e. run_candidate exec b = Inl e \<and> \<not> isMissingBinaryError e"
    using that main by fastforce
  from six main att part show ?thesis by blast
qed


theorem notInstalled_iff_every_candidate_missing_witness:
  "isNotInstalled (inspectNowPlaying ''darwin''
      (\<lambda>b. Rejected \<lparr>code = Str_code ''ENOENT'', message = ''spawn '' @ b @ '' ENOENT''\<rparr>))
   \<and> length (attempts (inspectNowPlaying ''darwin''
      (\<lambda>b. Rejected \<lparr>code = Str_code ''ENOENT'', message = ''spawn '' @ b @ '' ENOENT''\<rparr>))) = 6
   \<and> \<not> isNotInstalled (inspectNowPlaying ''darwin''
      (\<lambda>b. if b = ''/usr/local/bin/media-control''
            then Rejected \<lparr>code = Str_code ''EACCES'', message = ''spawn '' @ b @ '' EACCES''\<rparr>
            else Rejected \<lparr>code = Str_code ''ENOENT'', message = ''spawn '' @ b @ '' ENOENT''\<rparr>))"
proof -
  let ?missing = "\<lambda>b::string. Rejected \<lparr>code = Str_code ''ENOENT'', message = ''spawn '' @ b @ '' ENOENT''\<rparr>"
  let ?denied = "\<lambda>b::string. if b = ''/usr/local/bin/media-control''
            then Rejected \<lparr>code = Str_code ''EACCES'', message = ''spawn '' @ b @ '' EACCES''\<rparr>
            else ?missing b"
  have h1: "\<forall>b\<in>set candidates. \<exists>e. run_candidate ?missing b = Inl e \<and> isMissingBinaryError e"
    by (simp add: run_candidate_def isMissingBinaryError_def)
  have "\<not> isMissingBinaryError
          \<lparr>code = Str_code ''EACCES'', message = ''spawn /usr/local/bin/media-control EACCES''\<rparr>"
    by code_simp
  then have h2: "\<exists>b\<in>set candidates. \<exists>e. run_candidate ?denied b = Inl e \<and> \<not> isMissingBinaryError e"
    by (simp add: run_candidate_def candidates_def)
  from notInstalled_iff_every_candidate_missing [of "''darwin''" ?missing] h1
  have r1: "isNotInstalled (inspectNowPlaying ''darwin'' ?missing)"
    and r2: "length (attempts (inspectNowPlaying ''darwin'' ?missing)) = 6"
    by blast+
  from notInstalled_iff_every_candidate_missing [of "''darwin''" ?denied] h2
  have r3: "\<not> isNotInstalled (inspectNowPlaying ''darwin'' ?denied)"
    by blast
  from r1 r2 r3 show ?thesis by simp
qed

section \<open>Properties of the cache and the lookup\<close>

lemma readEligibleMedia_faulty: "fault st = Some e \<Longrightarrow> readEligibleMedia st kind = Inr Null"
  by (simp add: readEligibleMedia_def readEligibleMedia_try_def LocalStorage_getItem_def)

lemma readEligibleMedia_not_string:
  "\<forall>t. items st (CACHE_KEYS kind) \<noteq> Some (LS_string t) \<Longrightarrow> readEligibleMedia st kind = Inr Null"
  by (auto simp: readEligibleMedia_def readEligibleMedia_try_def LocalStorage_getItem_def
      split: option.split ls_value.split sum.split)

lemma readEligibleMedia_malformed:
  "items st (CACHE_KEYS kind) = Some (LS_string t) \<Longrightarrow> \<forall>v. JSON_parse t \<noteq> Inr v \<Longrightarrow>
     readEligibleMedia st kind = Inr Null"
  by (cases t)
    (simp_all add: readEligibleMedia_def readEligibleMedia_try_def LocalStorage_getItem_def
      split: option.split)

lemma readEligibleMedia_no_payload:
  "items st (CACHE_KEYS kind) = Some (LS_string (Json_text v)) \<Longrightarrow>
   \<not> (truthy (get_prop v ''payload'') \<and> typeof_object (get_prop v ''payload'')) \<Longrightarrow>
     readEligibleMedia st kind = Inr Null"
  by (auto simp: readEligibleMedia_def readEligibleMedia_try_def LocalStorage_getItem_def
      asPayloadRecord_def split: option.split)

lemma readEligibleMedia_hit:
  "fault st = None \<Longrightarrow> items st (CACHE_KEYS kind) = Some (LS_string (Json_text v)) \<Longrightarrow>
   truthy v \<Longrightarrow> typeof_object v \<Longrightarrow>
   truthy (get_prop v ''payload'') \<Longrightarrow> typeof_object (get_prop v ''payload'') \<Longrightarrow>
     readEligibleMedia st kind = Inr (get_prop v ''payload'')"
  by (simp add: readEligibleMedia_def readEligibleMedia_try_def LocalStorage_getItem_def
      asPayloadRecord_def)

text \<open>
  Claim C8. \<open>saveEligibleMedia\<close> always returns: when the storage rejects the write the
  error is swallowed and the storage is as before, and a lookup with an eligible live
  payload still returns that payload's query. \<open>readEligibleMedia\<close> always returns too,
  and returns \<open>null\<close> when the storage rejects the read, when the stored value is missing
  or not a string, when it is not JSON, and when the parsed value has no object under
  \<open>payload\<close>.
\<close>

theorem eligibility_cache_never_raises:
  "(\<exists>st'. saveEligibleMedia st now kind pl = Inr st')
   \<and> (fault st \<noteq> None \<longrightarrow> saveEligibleMedia st now kind pl = Inr st)
   \<and> (fault st = None \<longrightarrow>
        saveEligibleMedia st now kind pl
        = Inr (st\<lparr>items := (items st)(CACHE_KEYS kind \<mapsto>
                 LS_string (Json_text (Obj [(''payload'', pl), (''cachedAt'', Num now)])))\<rparr>))
   \<and> (fault st \<noteq> None \<and> truthy p \<and> typeof_object p \<and> queryForLookupKind p kind = Some q
        \<and> payload (inspectNowPlaying platform exec) = p \<longrightarrow>
        inspectNowPlayingForLookup platform exec now st kind options
        = Inr ((inspectNowPlaying platform exec)\<lparr>query := Some q\<rparr>, st))
   \<and> (\<exists>v. readEligibleMedia st kind = Inr v)
   \<and> (fault st \<noteq> None \<longrightarrow> readEligibleMedia st kind = Inr Null)
   \<and> (items st (CACHE_KEYS kind) = None \<longrightarrow> readEligibleMedia st kind = Inr Null)
   \<and> ((\<forall>t. items st (CACHE_KEYS kind) \<noteq> Some (LS_string t)) \<longrightarrow>
        readEligibleMedia st kind = Inr Null)
   \<and> (items st (CACHE_KEYS kind) = Some (LS_string t) \<and> (\<forall>v. JSON_parse t \<noteq> Inr v) \<longrightarrow>
        readEligibleMedia st kind = Inr Null)
   \<and> (items st (CACHE_KEYS kind) = Some (LS_string (Json_text v))
        \<and> \<not> (truthy (get_prop v ''payload'') \<and> typeof_object (get_prop v ''payload'')) \<longrightarrow>
        readEligibleMedia st kind = Inr Null)"
proof -
  have s1: "\<exists>st'. saveEligibleMedia st now kind pl = Inr st'"
    by (rule saveEligibleMedia_returns)
  have s2: "saveEligibleMedia st now kind pl = Inr st" if "fault st \<noteq> None"
    using that
    by (auto simp: saveEligibleMedia_def saveEligibleMedia_try_def LocalStorage_setItem_def)
  have s3: "saveEligibleMedia st now kind pl
        = Inr (st\<lparr>items := (items st)(CACHE_KEYS kind \<mapsto>
                 LS_string (Json_text (Obj [(''payload'', pl), (''cachedAt'', Num now)])))\<rparr>)"
    if "fault st = None"
    using that
    by (simp add: saveEligibleMedia_def saveEligibleMedia_try_def LocalStorage_setItem_def
        JSON_stringify_def)
  have s4: "inspectNowPlayingForLookup platform exec now st kind options
        = Inr ((inspectNowPlaying platform exec)\<lparr>query := Some q\<rparr>, st)"
    if "fault st \<noteq> None" "truthy p" "typeof_object p" "queryForLookupKind p kind = Some q"
      "payload (inspectNowPlaying platform exec) = p"
  proof -
    from that(4) have "q \<noteq> []" by (rule queryForLookupKind_nonempty)
    moreover have "saveEligibleMedia st now kind p = Inr st"
      using that(1)
      by (auto simp: saveEligibleMedia_def saveEligibleMedia_try_def LocalStorage_setItem_def)
    ultimately show ?thesis
      using that by (simp add: inspectNowPlayingForLookup_def asPayloadRecord_def Let_def)
  qed
  have r1: "\<exists>v. readEligibleMedia st kind = Inr v"
    by (rule readEligibleMedia_returns)
  have r2: "readEligibleMedia st kind = Inr Null" if "fault st \<noteq> None"
    using that readEligibleMedia_faulty by auto
  have r3: "readEligibleMedia st kind = Inr Null"
    if "\<forall>t. items st (CACHE_KEYS kind) \<noteq> Some (LS_string t)"
    using that by (rule readEligibleMedia_not_string)
  have r4: "readEligibleMedia st kind = Inr Null" if "items st (CACHE_KEYS kind) = None"
    using that r3 by simp
  note r5 = readEligibleMedia_malformed [of st kind t]
  note r6 = readEligibleMedia_no_payload [of st kind v]
  from s1 s2 s3 s4 r1 r2 r3 r4 r5 r6 show ?thesis
    by blast
qed


theorem eligibility_cache_never_raises_witness:
  "saveEligibleMedia \<lparr>items = Map.empty, fault = Some \<lparr>code = No_code, message = ''storage unavailable''\<rparr>\<rparr>
      0 Track (Obj [(''title'', Str ''Song''), (''album'', Str ''Album'')])
    = Inr \<lparr>items = Map.empty, fault = Some \<lparr>code = No_code, message = ''storage unavailable''\<rparr>\<rparr>
   \<and> readEligibleMedia \<lparr>items = Map.empty, fault = Some \<lparr>code = No_code, message = ''storage unavailable''\<rparr>\<rparr>
      Track = Inr Null
   \<and> readEligibleMedia \<lparr>items = Map.empty, fault = None\<rparr> Track = Inr Null
   \<and> readEligibleMedia \<lparr>items = [''cached-eligible-media-track'' \<mapsto> LS_number 3], fault = None\<rparr>
      Track = Inr Null
   \<and> readEligibleMedia
      \<lparr>items = [''cached-eligible-media-track'' \<mapsto> LS_string (Bad_text ''Unexpected token'')],
       fault = None\<rparr> Track = Inr Null
   \<and> readEligibleMedia
      \<lparr>items = [''cached-eligible-media-track'' \<mapsto>
                 LS_string (Json_text (Obj [(''payload'', Str ''x''), (''cachedAt'', Num 1)]))],
       fault = None\<rparr> Track = Inr Null"
proof -
  let ?e = "\<lparr>code = No_code, message = ''storage unavailable''\<rparr>"
  let ?down = "\<lparr>items = Map.empty, fault = Some ?e\<rparr>"
  let ?empty = "\<lparr>items = Map.empty, fault = None\<rparr>"
  let ?num = "\<lparr>items = [''cached-eligible-media-track'' \<mapsto> LS_number 3], fault = None\<rparr>"
  let ?bad = "\<lparr>items = [''cached-eligible-media-track'' \<mapsto> LS_string (Bad_text ''Unexpected token'')],
       fault = None\<rparr>"
  let ?v = "Obj [(''payload'', Str ''x''), (''cachedAt'', Num 1)]"
  let ?nopl = "\<lparr>items = [''cached-eligible-media-track'' \<mapsto> LS_string (Json_text ?v)], fault = None\<rparr>"
  let ?pl = "Obj [(''title'', Str ''Song''), (''album'', Str ''Album'')]"
  have a: "saveEligibleMedia ?down 0 Track ?pl = Inr ?down" "readEligibleMedia ?down Track = Inr Null"
    using eligibility_cache_never_raises [of ?down 0 Track ?pl] by simp_all
  have b: "readEligibleMedia ?empty Track = Inr Null"
    using eligibility_cache_never_raises [of ?empty 0 Track ?pl] by simp
  have c: "readEligibleMedia ?num Track = Inr Null"
    using eligibility_cache_never_raises [of ?num 0 Track ?pl] by simp
  have d: "readEligibleMedia ?bad Track = Inr Null"
    using eligibility_cache_never_raises [of ?bad 0 Track ?pl _ _ _ _ _ "Bad_text ''Unexpected token''"]
    by simp
  have e: "readEligibleMedia ?nopl Track = Inr Null"
    using eligibility_cache_never_raises [of ?nopl 0 Track ?pl _ _ _ _ _ _ ?v]
    by simp
  from a b c d e show ?thesis by simp
qed

lemma lookup_ineligible_no_fallback:
  assumes "truthy (payload (inspectNowPlaying platform exec))"
    and "typeof_object (payload (inspectNowPlaying platform exec))"
    and "queryForLookupKind (payload (inspectNowPlaying platform exec)) kind = None"
    and "options = None \<or> (\<exists>opts. options = Some opts \<and> allowCacheFallbackOnIneligible opts \<noteq> Some True)"
  shows "inspectNowPlayingForLookup platform exec now st kind options
           = Inr ((inspectNowPlaying platform exec)\<lparr>payload := Null, query := None\<rparr>, st)"
  using assms by (auto simp: inspectNowPlayingForLookup_def asPayloadRecord_def Let_def)

lemma lookup_ineligible_fallback:
  assumes "truthy (payload (inspectNowPlaying platform exec))"
    and "typeof_object (payload (inspectNowPlaying platform exec))"
    and "queryForLookupKind (payload (inspectNowPlaying platform exec)) kind = None"
    and "options = Some opts" and "allowCacheFallbackOnIneligible opts = Some True"
    and "readEligibleMedia st kind = Inr c"
  shows "inspectNowPlayingForLookup platform exec now st kind options
           = Inr (if truthy c \<and> truthy_str (queryForLookupKind c kind)
                  then (inspectNowPlaying platform exec)\<lparr>payload := c, query := queryForLookupKind c kind\<rparr>
                  else (inspectNowPlaying platform exec)\<lparr>payload := Null, query := None\<rparr>, st)"
  using assms by (simp add: inspectNowPlayingForLookup_def asPayloadRecord_def Let_def)

text \<open>
  Claim C4. When the probe's payload is an object that is ineligible for the requested
  kind and the caller has not set \<open>allowCacheFallbackOnIneligible\<close> to true, the lookup
  returns the probe's result with \<open>payload\<close> and \<open>query\<close> set to \<open>null\<close> and every other
  field as the probe gave it, whatever the storage holds, and leaves the storage alone.
  With the option set, an eligible cached payload is returned instead.
\<close>

theorem ineligible_live_payload_is_discarded:
  "(truthy (payload (inspectNowPlaying platform exec))
      \<and> typeof_object (payload (inspectNowPlaying platform exec))
      \<and> queryForLookupKind (payload (inspectNowPlaying platform exec)) kind = None
      \<and> (options = None
          \<or> (\<exists>opts. options = Some opts \<and> allowCacheFallbackOnIneligible opts \<noteq> Some True))
    \<longrightarrow> inspectNowPlayingForLookup platform exec now st kind options
          = Inr ((inspectNowPlaying platform exec)\<lparr>payload := Null, query := None\<rparr>, st))
   \<and> (truthy (payload (inspectNowPlaying platform exec))
      \<and> typeof_object (payload (inspectNowPlaying platform exec))
      \<and> queryForLookupKind (payload (inspectNowPlaying platform exec)) kind = None
      \<and> options = Some \<lparr>allowCacheFallbackOnIneligible = Some True\<rparr>
      \<and> readEligibleMedia st kind = Inr c \<and> truthy c \<and> queryForLookupKind c kind = Some q
    \<longrightarrow> inspectNowPlayingForLookup platform exec now st kind options
          = Inr ((inspectNowPlaying platform exec)\<lparr>payload := c, query := Some q\<rparr>, st))"
proof -
  let ?live = "inspectNowPlaying platform exec"
  have discard: "inspectNowPlayingForLookup platform exec now st kind options
           = Inr (?live\<lparr>payload := Null, query := None\<rparr>, st)"
    if "truthy (payload ?live)" "typeof_object (payload ?live)"
      "queryForLookupKind (payload ?live) kind = None"
      "options = None \<or> (\<exists>opts. options = Some opts \<and> allowCacheFallbackOnIneligible opts \<noteq> Some True)"
    using that by (rule lookup_ineligible_no_fallback)
  have opted: "inspectNowPlayingForLookup platform exec now st kind options
          = Inr (?live\<lparr>payload := c, query := Some q\<rparr>, st)"
    if "truthy (payload ?live)" "typeof_object (payload ?live)"
      "queryForLookupKind (payload ?live) kind = None"
      "options = Some \<lparr>allowCacheFallbackOnIneligible = Some True\<rparr>"
      "readEligibleMedia st kind = Inr c" "truthy c" "queryForLookupKind c kind = Some q"
  proof -
    from that(7) have "q \<noteq> []" by (rule queryForLookupKind_nonempty)
    with that lookup_ineligible_fallback [OF that(1-4) _ that(5), of now] show ?thesis
      by simp
  qed
  from discard opted show ?thesis by blast
qed

theorem ineligible_live_payload_is_discarded_witness:
  "readEligibleMedia
     \<lparr>items = [''cached-eligible-media-track'' \<mapsto>
        LS_string (Json_text (Obj [(''payload'', Obj [(''title'', Str ''Old''), (''album'', Str ''LP'')]),
                                   (''cachedAt'', Num 1)]))],
      fault = None\<rparr> Track
   = Inr (Obj [(''title'', Str ''Old''), (''album'', Str ''LP'')])
   \<and> queryForLookupKind (Obj [(''title'', Str ''Old''), (''album'', Str ''LP'')]) Track = Some ''Old''
   \<and> inspectNowPlayingForLookup ''darwin'' (\<lambda>b. Resolved (Json_text (Obj [(''title'', Str ''Song'')])) [])
       2
       \<lparr>items = [''cached-eligible-media-track'' \<mapsto>
          LS_string (Json_text (Obj [(''payload'', Obj [(''title'', Str ''Old''), (''album'', Str ''LP'')]),
                                     (''cachedAt'', Num 1)]))],
        fault = None\<rparr>
       Track None
     = Inr (\<lparr>query = None, stdout = Json_text (Obj [(''title'', Str ''Song'')]), stderr = [],
            error = None, payload = Null, binary = Some ''media-control'', attempts = [],
            isNotInstalled = False\<rparr>,
           \<lparr>items = [''cached-eligible-media-track'' \<mapsto>
              LS_string (Json_text (Obj [(''payload'', Obj [(''title'', Str ''Old''), (''album'', Str ''LP'')]),
                                         (''cachedAt'', Num 1)]))],
            fault = None\<rparr>)
   \<and> inspectNowPlayingForLookup ''darwin'' (\<lambda>b. Resolved (Json_text (Obj [(''title'', Str ''Song'')])) [])
       2
       \<lparr>items = [''cached-eligible-media-track'' \<mapsto>
          LS_string (Json_text (Obj [(''payload'', Obj [(''title'', Str ''Old''), (''album'', Str ''LP'')]),
                                     (''cachedAt'', Num 1)]))],
        fault = None\<rparr>
       Track (Some \<lparr>allowCacheFallbackOnIneligible = Some True\<rparr>)
     = Inr (\<lparr>query = Some ''Old'', stdout = Json_text (Obj [(''title'', Str ''Song'')]), stderr = [],
            error = None, payload = Obj [(''title'', Str ''Old''), (''album'', Str ''LP'')],
            binary = Some ''media-control'', attempts = [], isNotInstalled = False\<rparr>,
           \<lparr>items = [''cached-eligible-media-track'' \<mapsto>
              LS_string (Json_text (Obj [(''payload'', Obj [(''title'', Str ''Old''), (''album'', Str ''LP'')]),
                                         (''cachedAt'', Num 1)]))],
            fault = None\<rparr>)"
proof -
  let ?old = "Obj [(''title'', Str ''Old''), (''album'', Str ''LP'')]"
  let ?st = "\<lparr>items = [''cached-eligible-media-track'' \<mapsto>
        LS_string (Json_text (Obj [(''payload'', ?old), (''cachedAt'', Num 1)]))],
      fault = None\<rparr>"
  let ?exec = "\<lambda>b::string. Resolved (Json_text (Obj [(''title'', Str ''Song'')])) []"
  have live: "inspectNowPlaying ''darwin'' ?exec
      = \<lparr>query = Some ''Song'', stdout = Json_text (Obj [(''title'', Str ''Song'')]), stderr = [],
         error = None, payload = Obj [(''title'', Str ''Song'')], binary = Some ''media-control'',
         attempts = [], isNotInstalled = False\<rparr>"
    by (simp add: inspectNowPlaying_def candidates_def run_candidate_def
        formatNowPlayingSearchQuery_def readStringField_def trim_def is_ws_def)
  have inel: "queryForLookupKind (Obj [(''title'', Str ''Song'')]) Track = None"
    by (simp add: queryForLookupKind_def readStringField_def)
  have cached: "readEligibleMedia ?st Track = Inr ?old"
    by (simp add: readEligibleMedia_def readEligibleMedia_try_def LocalStorage_getItem_def
        asPayloadRecord_def)
  have el: "queryForLookupKind ?old Track = Some ''Old''"
    by (simp add: queryForLookupKind_def formatNowPlayingSearchQuery_def readStringField_def
        trim_def is_ws_def)
  have off: "inspectNowPlayingForLookup ''darwin'' ?exec 2 ?st Track None
      = Inr ((inspectNowPlaying ''darwin'' ?exec)\<lparr>payload := Null, query := None\<rparr>, ?st)"
    using ineligible_live_payload_is_discarded [of "''darwin''" ?exec Track None 2 ?st] inel
    by (simp add: live)
  have on: "inspectNowPlayingForLookup ''darwin'' ?exec 2 ?st Track
        (Some \<lparr>allowCacheFallbackOnIneligible = Some True\<rparr>)
      = Inr ((inspectNowPlaying ''darwin'' ?exec)\<lparr>payload := ?old, query := Some ''Old''\<rparr>, ?st)"
    using ineligible_live_payload_is_discarded [of "''darwin''" ?exec Track
        "Some \<lparr>allowCacheFallbackOnIneligible = Some True\<rparr>" 2 ?st ?old "''Old''"] inel cached el
    by (simp add: live)
  from cached el off on show ?thesis
    by (simp add: live)
qed

section \<open>Properties of the displayed state\<close>

lemma same_fields_eq: "same_fields prev next \<longleftrightarrow> prev = next"
  by (cases prev, cases "next") (auto simp: same_fields_def)

lemma setStateIfChanged_eq: "setStateIfChanged prev next = next"
proof (cases "same_fields prev next")
  case True
  then have "prev = next" by (simp only: same_fields_eq)
  with True show ?thesis by (simp only: setStateIfChanged_def if_True)
next
  case False
  then show ?thesis by (simp only: setStateIfChanged_def if_False)
qed

lemma setStatePreservingLastNowPlaying_eq:
  "setStatePreservingLastNowPlaying prev next
     = (if status prev = St_ok \<and> track prev \<noteq> [] then prev else next)"
proof (cases "same_fields prev next")
  case True
  then have "prev = next" by (simp only: same_fields_eq)
  then show ?thesis by (simp add: setStatePreservingLastNowPlaying_def)
next
  case False
  then show ?thesis by (simp add: setStatePreservingLastNowPlaying_def)
qed


lemma setNowPlayingState_eq:
  assumes r: "r = (if u \<noteq> [] then u
               else if album prev \<noteq> [] \<and> al \<noteq> [] \<and> album prev = al then artworkUrl prev else [])"
    and n: "nxt = \<lparr>track = t, artist = a, album = al, artworkUrl = r, status = St_ok,
                  state_error = None\<rparr>"
  shows "setNowPlayingState prev cache t a al u =
     (if r = [] \<and> status prev = St_ok \<and> track prev \<noteq> [] then (prev, cache)
      else (nxt, writeCachedState nxt cache))"
proof -
  have body: "setNowPlayingState prev cache t a al u =
     (if r = [] \<and> status prev = St_ok \<and> track prev \<noteq> [] then (prev, cache)
      else if same_fields prev nxt then (prev, writeCachedState nxt cache)
      else (nxt, writeCachedState nxt cache))"
    unfolding r n by (simp add: setNowPlayingState_def Let_def)
  show ?thesis
  proof (cases "same_fields prev nxt")
    case True
    then have "prev = nxt" by (simp only: same_fields_eq)
    with body show ?thesis by simp
  next
    case False
    with body show ?thesis by simp
  qed
qed


lemma applyLookup_held:
  assumes "status (state w) = St_ok" and "track (state w) \<noteq> []"
  shows "applyLookup (Inl e) w = w"
    and "\<not> isNotInstalled info \<Longrightarrow> readStringField (payload info) ''title'' = [] \<Longrightarrow>
           applyLookup (Inr info) w = w"
  using assms by (simp_all add: applyLookup_def setStatePreservingLastNowPlaying_eq Let_def)

lemma applyLookup_titled:
  assumes "\<not> isNotInstalled info" and "readStringField (payload info) ''title'' \<noteq> []"
  shows "applyLookup (Inr info) w =
     (case setNowPlayingState (state w) (menubarCache w)
             (readStringField (payload info) ''title'') (readStringField (payload info) ''artist'')
             (readStringField (payload info) ''album'') (readArtworkUrl (payload info)) of
        (s, c) \<Rightarrow> w\<lparr>state := s, menubarCache := c\<rparr>)"
  using assms by (simp add: applyLookup_def Let_def)

lemma applyLookup_status:
  assumes "status (state w) = St_ok" and "track (state w) \<noteq> []"
  shows "status (state (applyLookup outcome w)) \<noteq> St_no_track
       \<and> status (state (applyLookup outcome w)) \<noteq> St_error"
proof (cases outcome)
  case (Inl e)
  with assms applyLookup_held(1) [OF assms] show ?thesis by simp
next
  case (Inr info)
  show ?thesis
  proof (cases "isNotInstalled info")
    case True
    with Inr show ?thesis
      by (simp add: applyLookup_def setStateIfChanged_eq Let_def)
  next
    case False
    show ?thesis
    proof (cases "readStringField (payload info) ''title'' = []")
      case True
      with assms Inr False applyLookup_held(2) [OF assms] show ?thesis by simp
    next
      case titled: False
      show ?thesis
        unfolding Inr applyLookup_titled [OF False titled]
          setNowPlayingState_eq [OF refl refl]
        using assms by simp
    qed
  qed
qed

lemma refreshNowPlaying_state:
  "state (fst (refreshNowPlaying platform exec now (w, st))) = state w
   \<or> (\<exists>outcome. state (fst (refreshNowPlaying platform exec now (w, st)))
                  = state (applyLookup outcome (w\<lparr>inFlightRef := True\<rparr>)))"
proof (cases "inFlightRef w \<or> platform \<noteq> ''darwin''")
  case True
  then show ?thesis by (simp add: refreshNowPlaying_def)
next
  case False
  show ?thesis
  proof (cases "inspectNowPlayingForLookup platform exec now st Track
                  (Some \<lparr>allowCacheFallbackOnIneligible = Some True\<rparr>)")
    case (Inl e)
    with False have "state (fst (refreshNowPlaying platform exec now (w, st)))
        = state (applyLookup (Inl e) (w\<lparr>inFlightRef := True\<rparr>))"
      by (simp add: refreshNowPlaying_def)
    then show ?thesis by blast
  next
    case (Inr x)
    obtain info st' where "x = (info, st')" by (cases x)
    with Inr False have "state (fst (refreshNowPlaying platform exec now (w, st)))
        = state (applyLookup (Inr info) (w\<lparr>inFlightRef := True\<rparr>))"
      by (simp add: refreshNowPlaying_def)
    then show ?thesis by blast
  qed
qed

text \<open>
  Claim C6. When the new payload has no artwork and none can be carried over (the displayed
  album is empty, the new album is empty, the albums differ, or the displayed artwork is
  empty) while a track is displayed with status ok, \<open>setNowPlayingState\<close> returns the old
  state and writes nothing, and so does the whole transition. In every other case (an
  artwork URL resolves, or nothing was displayed) it commits the new state with status ok
  and hands it to \<open>writeCachedState\<close>.
\<close>

theorem update_deferred_until_artwork_resolves:
  "(u = [] \<and> (album prev = [] \<or> al = [] \<or> album prev \<noteq> al \<or> artworkUrl prev = [])
      \<and> status prev = St_ok \<and> track prev \<noteq> []
     \<longrightarrow> setNowPlayingState prev cache t a al u = (prev, cache))
   \<and> (u \<noteq> [] \<or> (album prev \<noteq> [] \<and> album prev = al \<and> artworkUrl prev \<noteq> [])
        \<or> status prev \<noteq> St_ok \<or> track prev = []
     \<longrightarrow> setNowPlayingState prev cache t a al u
         = (\<lparr>track = t, artist = a, album = al,
              artworkUrl = (if u \<noteq> [] then u
                            else if album prev \<noteq> [] \<and> album prev = al then artworkUrl prev else []),
              status = St_ok, state_error = None\<rparr>,
            writeCachedState
              \<lparr>track = t, artist = a, album = al,
               artworkUrl = (if u \<noteq> [] then u
                             else if album prev \<noteq> [] \<and> album prev = al then artworkUrl prev else []),
               status = St_ok, state_error = None\<rparr> cache))
   \<and> (\<not> isNotInstalled info \<and> readStringField (payload info) ''title'' \<noteq> []
        \<and> readArtworkUrl (payload info) = []
        \<and> (album (state w) = [] \<or> readStringField (payload info) ''album'' = []
            \<or> album (state w) \<noteq> readStringField (payload info) ''album''
            \<or> artworkUrl (state w) = [])
        \<and> status (state w) = St_ok \<and> track (state w) \<noteq> []
     \<longrightarrow> applyLookup (Inr info) w = w)"
proof -
  note eq = setNowPlayingState_eq [OF refl refl]
  have deferred: "setNowPlayingState p c t' a' al' u' = (p, c)"
    if "u' = []" "album p = [] \<or> al' = [] \<or> album p \<noteq> al' \<or> artworkUrl p = []"
      "status p = St_ok" "track p \<noteq> []" for p c t' a' al' u'
    unfolding eq using that by auto
  have committed: "setNowPlayingState prev cache t a al u
         = (\<lparr>track = t, artist = a, album = al,
              artworkUrl = (if u \<noteq> [] then u
                            else if album prev \<noteq> [] \<and> album prev = al then artworkUrl prev else []),
              status = St_ok, state_error = None\<rparr>,
            writeCachedState
              \<lparr>track = t, artist = a, album = al,
               artworkUrl = (if u \<noteq> [] then u
                             else if album prev \<noteq> [] \<and> album prev = al then artworkUrl prev else []),
               status = St_ok, state_error = None\<rparr> cache)"
    if "u \<noteq> [] \<or> (album prev \<noteq> [] \<and> album prev = al \<and> artworkUrl prev \<noteq> [])
        \<or> status prev \<noteq> St_ok \<or> track prev = []"
    unfolding eq using that by auto
  have held: "applyLookup (Inr info) w = w"
    if h: "\<not> isNotInstalled info" "readStringField (payload info) ''title'' \<noteq> []"
      "readArtworkUrl (payload info) = []"
      "album (state w) = [] \<or> readStringField (payload info) ''album'' = []
            \<or> album (state w) \<noteq> readStringField (payload info) ''album''
            \<or> artworkUrl (state w) = []"
      "status (state w) = St_ok" "track (state w) \<noteq> []"
  proof -
    from deferred [OF h(3) h(4) h(5) h(6)]
    have "setNowPlayingState (state w) (menubarCache w)
             (readStringField (payload info) ''title'') (readStringField (payload info) ''artist'')
             (readStringField (payload info) ''album'') (readArtworkUrl (payload info))
          = (state w, menubarCache w)" .
    then show ?thesis
      by (simp add: applyLookup_titled [OF h(1) h(2)])
  qed
  from deferred [of u prev al cache t a] committed held show ?thesis
    by blast
qed


theorem update_deferred_until_artwork_resolves_witness:
  "setNowPlayingState
     \<lparr>track = ''A'', artist = ''P'', album = ''X'', artworkUrl = ''u1'', status = St_ok,
      state_error = None\<rparr> Map.empty ''B'' ''Q'' ''Y'' []
   = (\<lparr>track = ''A'', artist = ''P'', album = ''X'', artworkUrl = ''u1'', status = St_ok,
       state_error = None\<rparr>, Map.empty)
   \<and> fst (setNowPlayingState
     \<lparr>track = ''A'', artist = ''P'', album = ''X'', artworkUrl = ''u1'', status = St_ok,
      state_error = None\<rparr> Map.empty ''B'' ''Q'' ''Y'' ''u2'')
   = \<lparr>track = ''B'', artist = ''Q'', album = ''Y'', artworkUrl = ''u2'', status = St_ok,
      state_error = None\<rparr>
   \<and> fst (setNowPlayingState
     \<lparr>track = [], artist = [], album = [], artworkUrl = [], status = St_no_track,
      state_error = None\<rparr> Map.empty ''B'' ''Q'' ''Y'' [])
   = \<lparr>track = ''B'', artist = ''Q'', album = ''Y'', artworkUrl = [], status = St_ok,
      state_error = None\<rparr>"
proof -
  let ?prev = "\<lparr>track = ''A'', artist = ''P'', album = ''X'', artworkUrl = ''u1'', status = St_ok,
      state_error = None\<rparr>"
  let ?none = "\<lparr>track = [], artist = [], album = [], artworkUrl = [], status = St_no_track,
      state_error = None\<rparr>"
  have a: "setNowPlayingState ?prev Map.empty ''B'' ''Q'' ''Y'' [] = (?prev, Map.empty)"
    using update_deferred_until_artwork_resolves [of "[]" ?prev "''Y''" Map.empty "''B''" "''Q''"]
    by simp
  have b: "fst (setNowPlayingState ?prev Map.empty ''B'' ''Q'' ''Y'' ''u2'')
      = \<lparr>track = ''B'', artist = ''Q'', album = ''Y'', artworkUrl = ''u2'', status = St_ok,
         state_error = None\<rparr>"
    using update_deferred_until_artwork_resolves [of "''u2''" ?prev "''Y''" Map.empty "''B''" "''Q''"]
    by simp
  have c: "fst (setNowPlayingState ?none Map.empty ''B'' ''Q'' ''Y'' [])
      = \<lparr>track = ''B'', artist = ''Q'', album = ''Y'', artworkUrl = [], status = St_ok,
         state_error = None\<rparr>"
    using update_deferred_until_artwork_resolves [of "[]" ?none "''Y''" Map.empty "''B''" "''Q''"]
    by simp
  from a b c show ?thesis by simp
qed

text \<open>
  Claim C2. While a state with status ok and a non-empty track is displayed: a lookup result
  that is not classified as not-installed and carries no title (no eligible payload and no
  cache hit, or a probe execution error) leaves the command unchanged, and so does a lookup
  that throws; after any lookup outcome, any refresh and any run of the mount effect the
  status is neither no-track nor error.
\<close>

theorem held_ok_state_survives_no_track_and_error:
  "status (state w) = St_ok \<and> track (state w) \<noteq> [] \<longrightarrow>
     (\<not> isNotInstalled info \<and> readStringField (payload info) ''title'' = []
        \<longrightarrow> applyLookup (Inr info) w = w)
     \<and> (\<not> isNotInstalled info \<and> payload info = Null \<longrightarrow> applyLookup (Inr info) w = w)
     \<and> applyLookup (Inl e) w = w
     \<and> status (state (applyLookup outcome w)) \<noteq> St_no_track
     \<and> status (state (applyLookup outcome w)) \<noteq> St_error
     \<and> status (state (fst (refreshNowPlaying platform exec now (w, st)))) \<noteq> St_no_track
     \<and> status (state (fst (refreshNowPlaying platform exec now (w, st)))) \<noteq> St_error
     \<and> status (state (fst (Command_effect platform exec now (w, st)))) \<noteq> St_no_track
     \<and> status (state (fst (Command_effect platform exec now (w, st)))) \<noteq> St_error
     \<and> (\<not> inFlightRef w
          \<and> inspectNowPlayingForLookup platform exec now st Track
               (Some \<lparr>allowCacheFallbackOnIneligible = Some True\<rparr>) = Inr (info, st')
          \<and> \<not> isNotInstalled info \<and> readStringField (payload info) ''title'' = []
        \<longrightarrow> state (fst (refreshNowPlaying platform exec now (w, st))) = state w)"
proof (intro impI)
  assume held: "status (state w) = St_ok \<and> track (state w) \<noteq> []"
  then have ok: "status (state w) = St_ok" and tr: "track (state w) \<noteq> []"
    by simp_all
  let ?w1 = "w\<lparr>inFlightRef := True\<rparr>"
  have ok1: "status (state ?w1) = St_ok" and tr1: "track (state ?w1) \<noteq> []"
    using ok tr by simp_all
  have a: "applyLookup (Inr info) w = w"
    if "\<not> isNotInstalled info" "readStringField (payload info) ''title'' = []"
    using applyLookup_held(2) [OF ok tr that] .
  have b: "applyLookup (Inr info) w = w" if "\<not> isNotInstalled info" "payload info = Null"
    using that a by (simp add: readStringField_def)
  have c: "applyLookup (Inl e) w = w"
    using applyLookup_held(1) [OF ok tr] .
  note d = applyLookup_status [OF ok tr, of outcome]
  have r: "status (state (fst (refreshNowPlaying platform exec now (w, st)))) \<noteq> St_no_track
      \<and> status (state (fst (refreshNowPlaying platform exec now (w, st)))) \<noteq> St_error"
    using refreshNowPlaying_state [of platform exec now w st] applyLookup_status [OF ok1 tr1] ok
    by auto
  have f: "status (state (fst (Command_effect platform exec now (w, st)))) \<noteq> St_no_track
      \<and> status (state (fst (Command_effect platform exec now (w, st)))) \<noteq> St_error"
  proof (cases "platform = ''darwin''")
    case True
    with r show ?thesis by (simp add: Command_effect_def)
  next
    case False
    then show ?thesis by (simp add: Command_effect_def setStateIfChanged_eq)
  qed
  have g: "state (fst (refreshNowPlaying platform exec now (w, st))) = state w"
    if h: "\<not> inFlightRef w"
      "inspectNowPlayingForLookup platform exec now st Track
               (Some \<lparr>allowCacheFallbackOnIneligible = Some True\<rparr>) = Inr (info, st')"
      "\<not> isNotInstalled info" "readStringField (payload info) ''title'' = []"
  proof (cases "platform = ''darwin''")
    case True
    with h(1,2) have "state (fst (refreshNowPlaying platform exec now (w, st)))
        = state (applyLookup (Inr info) ?w1)"
      by (simp add: refreshNowPlaying_def)
    also have "applyLookup (Inr info) ?w1 = ?w1"
      using applyLookup_held(2) [OF ok1 tr1 h(3) h(4)] .
    finally show ?thesis by simp
  next
    case False
    then show ?thesis by (simp add: refreshNowPlaying_def)
  qed
  from a b c d r f g
  show "(\<not> isNotInstalled info \<and> readStringField (payload info) ''title'' = []
        \<longrightarrow> applyLookup (Inr info) w = w)
     \<and> (\<not> isNotInstalled info \<and> payload info = Null \<longrightarrow> applyLookup (Inr info) w = w)
     \<and> applyLookup (Inl e) w = w
     \<and> status (state (applyLookup outcome w)) \<noteq> St_no_track
     \<and> status (state (applyLookup outcome w)) \<noteq> St_error
     \<and> status (state (fst (refreshNowPlaying platform exec now (w, st)))) \<noteq> St_no_track
     \<and> status (state (fst (refreshNowPlaying platform exec now (w, st)))) \<noteq> St_error
     \<and> status (state (fst (Command_effect platform exec now (w, st)))) \<noteq> St_no_track
     \<and> status (state (fst (Command_effect platform exec now (w, st)))) \<noteq> St_error
     \<and> (\<not> inFlightRef w
          \<and> inspectNowPlayingForLookup platform exec now st Track
               (Some \<lparr>allowCacheFallbackOnIneligible = Some True\<rparr>) = Inr (info, st')
          \<and> \<not> isNotInstalled info \<and> readStringField (payload info) ''title'' = []
        \<longrightarrow> state (fst (refreshNowPlaying platform exec now (w, st))) = state w)"
    by blast
qed

theorem held_ok_state_survives_no_track_and_error_witness:
  "\<not> isNotInstalled (inspectNowPlaying ''darwin''
        (\<lambda>b. Rejected \<lparr>code = Str_code ''EACCES'', message = ''spawn EACCES''\<rparr>))
   \<and> state (fst (refreshNowPlaying ''darwin''
        (\<lambda>b. Rejected \<lparr>code = Str_code ''EACCES'', message = ''spawn EACCES''\<rparr>) 0
        (\<lparr>state = \<lparr>track = ''A'', artist = ''P'', album = ''X'', artworkUrl = ''u1'',
                    status = St_ok, state_error = None\<rparr>,
          hasInitialized = True, inFlightRef = False, menubarCache = Map.empty\<rparr>,
         \<lparr>items = Map.empty, fault = None\<rparr>)))
     = \<lparr>track = ''A'', artist = ''P'', album = ''X'', artworkUrl = ''u1'',
        status = St_ok, state_error = None\<rparr>"
proof -
  let ?e = "\<lparr>code = Str_code ''EACCES'', message = ''spawn EACCES''\<rparr>"
  let ?exec = "\<lambda>b::string. Rejected ?e"
  let ?w = "\<lparr>state = \<lparr>track = ''A'', artist = ''P'', album = ''X'', artworkUrl = ''u1'',
                    status = St_ok, state_error = None\<rparr>,
          hasInitialized = True, inFlightRef = False, menubarCache = Map.empty\<rparr>"
  let ?st = "\<lparr>items = Map.empty, fault = None\<rparr>"
  let ?live = "inspectNowPlaying ''darwin'' ?exec"
  have cls: "\<not> isMissingBinaryError ?e"
    by code_simp
  have pl: "payload ?live = Null" and ni: "\<not> isNotInstalled ?live"
    by (simp_all add: inspectNowPlaying_def candidates_def run_candidate_def cls)
  have look: "inspectNowPlayingForLookup ''darwin'' ?exec 0 ?st Track
      (Some \<lparr>allowCacheFallbackOnIneligible = Some True\<rparr>)
      = Inr (?live\<lparr>payload := Null, query := None\<rparr>, ?st)"
    by (simp add: inspectNowPlayingForLookup_def pl asPayloadRecord_def readEligibleMedia_def
        readEligibleMedia_try_def LocalStorage_getItem_def queryForLookupKind_def
        readStringField_def)
  have "state (fst (refreshNowPlaying ''darwin'' ?exec 0 (?w, ?st))) = state ?w"
    using held_ok_state_survives_no_track_and_error
      [of ?w "?live\<lparr>payload := Null, query := None\<rparr>" _ _ "''darwin''" ?exec 0 ?st ?st]
      look ni
    by (simp add: readStringField_def)
  with ni show ?thesis by simp
qed

text \<open>
  Claim C1 as stated fails: with \<open>{track: "A", album: "X", artworkUrl: "u1", status: ok}\<close>
  displayed and a probe payload \<open>{title: "B", album: "X"}\<close> without artwork, the refresh
  displays track "B" with artwork "u1"; the state is not the prior one.
\<close>

theorem same_album_update_is_not_deferred_counterexample:
  "state (fst (refreshNowPlaying ''darwin''
        (\<lambda>b. Resolved (Json_text (Obj [(''title'', Str ''B''), (''album'', Str ''X'')])) []) 0
        (\<lparr>state = \<lparr>track = ''A'', artist = [], album = ''X'', artworkUrl = ''u1'',
                    status = St_ok, state_error = None\<rparr>,
          hasInitialized = True, inFlightRef = False, menubarCache = Map.empty\<rparr>,
         \<lparr>items = Map.empty, fault = None\<rparr>)))
     = \<lparr>track = ''B'', artist = [], album = ''X'', artworkUrl = ''u1'',
        status = St_ok, state_error = None\<rparr>
   \<and> state (fst (refreshNowPlaying ''darwin''
        (\<lambda>b. Resolved (Json_text (Obj [(''title'', Str ''B''), (''album'', Str ''X'')])) []) 0
        (\<lparr>state = \<lparr>track = ''A'', artist = [], album = ''X'', artworkUrl = ''u1'',
                    status = St_ok, state_error = None\<rparr>,
          hasInitialized = True, inFlightRef = False, menubarCache = Map.empty\<rparr>,
         \<lparr>items = Map.empty, fault = None\<rparr>)))
     \<noteq> \<lparr>track = ''A'', artist = [], album = ''X'', artworkUrl = ''u1'',
        status = St_ok, state_error = None\<rparr>"
  by code_simp

text \<open>
  Claim C1, as amended. If the lookup result is not classified as not-installed and its
  payload has a title, the album that is displayed (non-empty) and no artwork of its own,
  while the displayed state has artwork, then the next state has the new title and artist,
  the same album and the displayed artwork carried over, with status ok: the update is
  committed, not deferred.
\<close>

theorem same_album_track_change_carries_artwork:
  "\<not> isNotInstalled info \<and> readStringField (payload info) ''title'' \<noteq> []
     \<and> readStringField (payload info) ''album'' = album (state w) \<and> album (state w) \<noteq> []
     \<and> readArtworkUrl (payload info) = [] \<and> artworkUrl (state w) \<noteq> []
   \<longrightarrow> state (applyLookup (Inr info) w)
       = \<lparr>track = readStringField (payload info) ''title'',
          artist = readStringField (payload info) ''artist'',
          album = album (state w), artworkUrl = artworkUrl (state w),
          status = St_ok, state_error = None\<rparr>"
proof
  assume h: "\<not> isNotInstalled info \<and> readStringField (payload info) ''title'' \<noteq> []
     \<and> readStringField (payload info) ''album'' = album (state w) \<and> album (state w) \<noteq> []
     \<and> readArtworkUrl (payload info) = [] \<and> artworkUrl (state w) \<noteq> []"
  then have ni: "\<not> isNotInstalled info" and ti: "readStringField (payload info) ''title'' \<noteq> []"
    by simp_all
  from h show "state (applyLookup (Inr info) w)
       = \<lparr>track = readStringField (payload info) ''title'',
          artist = readStringField (payload info) ''artist'',
          album = album (state w), artworkUrl = artworkUrl (state w),
          status = St_ok, state_error = None\<rparr>"
    unfolding applyLookup_titled [OF ni ti] setNowPlayingState_eq [OF refl refl]
    by simp
qed

theorem same_album_track_change_carries_artwork_witness:
  "readStringField (Obj [(''title'', Str ''B''), (''album'', Str ''X'')]) ''title'' = ''B''
   \<and> readStringField (Obj [(''title'', Str ''B''), (''album'', Str ''X'')]) ''album'' = ''X''
   \<and> readArtworkUrl (Obj [(''title'', Str ''B''), (''album'', Str ''X'')]) = []
   \<and> state (applyLookup
        (Inr \<lparr>query = Some ''B'', stdout = Empty_text, stderr = [], error = None,
              payload = Obj [(''title'', Str ''B''), (''album'', Str ''X'')],
              binary = Some ''media-control'', attempts = [], isNotInstalled = False\<rparr>)
        \<lparr>state = \<lparr>track = ''A'', artist = [], album = ''X'', artworkUrl = ''u1'',
                   status = St_ok, state_error = None\<rparr>,
         hasInitialized = True, inFlightRef = False, menubarCache = Map.empty\<rparr>)
     = \<lparr>track = ''B'', artist = [], album = ''X'', artworkUrl = ''u1'',
        status = St_ok, state_error = None\<rparr>"
proof -
  let ?p = "Obj [(''title'', Str ''B''), (''album'', Str ''X'')]"
  let ?info = "\<lparr>query = Some ''B'', stdout = Empty_text, stderr = [], error = None,
              payload = ?p, binary = Some ''media-control'', attempts = [],
              isNotInstalled = False\<rparr>"
  let ?w = "\<lparr>state = \<lparr>track = ''A'', artist = [], album = ''X'', artworkUrl = ''u1'',
                   status = St_ok, state_error = None\<rparr>,
         hasInitialized = True, inFlightRef = False, menubarCache = Map.empty\<rparr>"
  have f: "readStringField ?p ''title'' = ''B''" "readStringField ?p ''album'' = ''X''"
    "readStringField ?p ''artist'' = []" "readArtworkUrl ?p = []"
    by code_simp+
  from same_album_track_change_carries_artwork [of ?info ?w] f
  have "state (applyLookup (Inr ?info) ?w)
     = \<lparr>track = ''B'', artist = [], album = ''X'', artworkUrl = ''u1'',
        status = St_ok, state_error = None\<rparr>"
    by simp
  with f show ?thesis by simp
qed

lemma readCachedState_written:
  assumes "c LAST_STATE_CACHE_KEY = Some (JSON_stringify (state_value s))"
    and "status s = St_ok"
  shows "readCachedState c
     = Some \<lparr>track = track s, artist = artist s, album = album s, artworkUrl = artworkUrl s,
             status = St_ok, state_error = state_error s\<rparr>"
proof (cases "state_error s")
  case None
  with assms show ?thesis
    by (simp add: readCachedState_def JSON_stringify_def state_value_def status_of_def)
next
  case (Some e)
  with assms show ?thesis
    by (simp add: readCachedState_def JSON_stringify_def state_value_def status_of_def)
qed

lemma writeCachedState_key:
  "writeCachedState s c LAST_STATE_CACHE_KEY
     = (if status s = St_ok \<and> track s \<noteq> [] then Some (JSON_stringify (state_value s))
        else c LAST_STATE_CACHE_KEY)"
  by (simp add: writeCachedState_def)

lemma applyLookup_cases:
  "(menubarCache (applyLookup outcome w) = menubarCache w
      \<and> (state (applyLookup outcome w) = state w \<or> status (state (applyLookup outcome w)) \<noteq> St_ok))
   \<or> (status (state (applyLookup outcome w)) = St_ok
      \<and> track (state (applyLookup outcome w)) \<noteq> []
      \<and> menubarCache (applyLookup outcome w)
          = (menubarCache w)(LAST_STATE_CACHE_KEY \<mapsto>
               JSON_stringify (state_value (state (applyLookup outcome w)))))"
proof (cases outcome)
  case (Inl e)
  then show ?thesis
    by (simp add: applyLookup_def setStatePreservingLastNowPlaying_eq)
next
  case (Inr info)
  show ?thesis
  proof (cases "isNotInstalled info")
    case True
    with Inr show ?thesis
      by (simp add: applyLookup_def setStateIfChanged_eq Let_def)
  next
    case False
    show ?thesis
    proof (cases "readStringField (payload info) ''title'' = []")
      case True
      with Inr False show ?thesis
        by (simp add: applyLookup_def setStatePreservingLastNowPlaying_eq Let_def)
    next
      case titled: False
      then show ?thesis
        unfolding Inr applyLookup_titled [OF False titled] setNowPlayingState_eq [OF refl refl]
        by (simp add: writeCachedState_def)
    qed
  qed
qed

lemma Command_effect_cases:
  "(menubarCache (fst (Command_effect platform exec now (w, st))) = menubarCache w
      \<and> (state (fst (Command_effect platform exec now (w, st))) = state w
          \<or> status (state (fst (Command_effect platform exec now (w, st)))) \<noteq> St_ok))
   \<or> (status (state (fst (Command_effect platform exec now (w, st)))) = St_ok
      \<and> track (state (fst (Command_effect platform exec now (w, st)))) \<noteq> []
      \<and> menubarCache (fst (Command_effect platform exec now (w, st)))
          = (menubarCache w)(LAST_STATE_CACHE_KEY \<mapsto>
               JSON_stringify (state_value (state (fst (Command_effect platform exec now (w, st)))))))"
proof (cases "platform = ''darwin''")
  case False
  then show ?thesis
    by (simp add: Command_effect_def setStateIfChanged_eq)
next
  case True
  show ?thesis
  proof (cases "inFlightRef w")
    case True
    with \<open>platform = ''darwin''\<close> show ?thesis
      by (simp add: Command_effect_def refreshNowPlaying_def)
  next
    case False
    let ?w1 = "w\<lparr>inFlightRef := True\<rparr>"
    obtain outcome where o: "fst (Command_effect platform exec now (w, st))
        = (applyLookup outcome ?w1)\<lparr>hasInitialized := True, inFlightRef := False\<rparr>"
    proof (cases "inspectNowPlayingForLookup platform exec now st Track
                  (Some \<lparr>allowCacheFallbackOnIneligible = Some True\<rparr>)")
      case (Inl e)
      with False True have "fst (Command_effect platform exec now (w, st))
        = (applyLookup (Inl e) ?w1)\<lparr>hasInitialized := True, inFlightRef := False\<rparr>"
        by (simp add: Command_effect_def refreshNowPlaying_def)
      then show ?thesis by (rule that)
    next
      case (Inr x)
      obtain info st' where "x = (info, st')" by (cases x)
      with Inr False True have "fst (Command_effect platform exec now (w, st))
        = (applyLookup (Inr info) ?w1)\<lparr>hasInitialized := True, inFlightRef := False\<rparr>"
        by (simp add: Command_effect_def refreshNowPlaying_def)
      then show ?thesis by (rule that)
    qed
    from applyLookup_cases [of outcome ?w1] show ?thesis
      unfolding o by simp
  qed
qed

lemma reachable_invariant:
  "reachable platform w \<Longrightarrow>
     (status (state w) = St_ok \<longrightarrow> track (state w) \<noteq> [])
     \<and> (menubarCache w LAST_STATE_CACHE_KEY = None
        \<or> (\<exists>s. menubarCache w LAST_STATE_CACHE_KEY = Some (JSON_stringify (state_value s))
               \<and> status s = St_ok \<and> track s \<noteq> []))"
proof (induction rule: reachable.induct)
  case fresh
  show ?case
    by (simp add: Command_mount_def readCachedState_def defaultState_def)
next
  case (remount w)
  from remount.IH have "menubarCache w LAST_STATE_CACHE_KEY = None
        \<or> (\<exists>s. menubarCache w LAST_STATE_CACHE_KEY = Some (JSON_stringify (state_value s))
               \<and> status s = St_ok \<and> track s \<noteq> [])"
    by simp
  then show ?case
  proof
    assume "menubarCache w LAST_STATE_CACHE_KEY = None"
    then show ?thesis
      by (simp add: Command_mount_def readCachedState_def defaultState_def)
  next
    assume "\<exists>s. menubarCache w LAST_STATE_CACHE_KEY = Some (JSON_stringify (state_value s))
               \<and> status s = St_ok \<and> track s \<noteq> []"
    then obtain s where s: "menubarCache w LAST_STATE_CACHE_KEY = Some (JSON_stringify (state_value s))"
      "status s = St_ok" "track s \<noteq> []"
      by blast
    have "readCachedState (menubarCache w)
        = Some \<lparr>track = track s, artist = artist s, album = album s, artworkUrl = artworkUrl s,
             status = St_ok, state_error = state_error s\<rparr>"
      using s(1) s(2) by (rule readCachedState_written [of "menubarCache w" s])
    with s show ?thesis
      by (auto simp: Command_mount_def)
  qed
next
  case (effect w exec now st)
  let ?w' = "fst (Command_effect platform exec now (w, st))"
  from Command_effect_cases [of platform exec now w st]
  show ?case
  proof
    assume "menubarCache ?w' = menubarCache w
      \<and> (state ?w' = state w \<or> status (state ?w') \<noteq> St_ok)"
    with effect.IH show ?thesis by auto
  next
    assume "status (state ?w') = St_ok \<and> track (state ?w') \<noteq> []
      \<and> menubarCache ?w' = (menubarCache w)(LAST_STATE_CACHE_KEY \<mapsto>
               JSON_stringify (state_value (state ?w')))"
    then have ok: "status (state ?w') = St_ok" "track (state ?w') \<noteq> []"
      and c: "menubarCache ?w' LAST_STATE_CACHE_KEY = Some (JSON_stringify (state_value (state ?w')))"
      by simp_all
    from ok c show ?thesis by blast
  qed
qed


text \<open>
  Claim C7. In every reachable state of the command, status ok implies a non-empty track,
  and the cache key of the last displayed state is either unset or holds a state with
  status ok and a non-empty track. \<open>writeCachedState\<close> stores a state with status ok and
  a non-empty track under that key and does nothing for any other state; a run of the mount
  effect either leaves the cache alone or stores the state it now displays, which then has
  status ok and a non-empty track.
\<close>

theorem ok_implies_track_and_cache_mirrors_ok_only:
  "(reachable platform w \<longrightarrow>
      (status (state w) = St_ok \<longrightarrow> track (state w) \<noteq> [])
      \<and> (menubarCache w LAST_STATE_CACHE_KEY = None
         \<or> (\<exists>s. menubarCache w LAST_STATE_CACHE_KEY = Some (JSON_stringify (state_value s))
                \<and> status s = St_ok \<and> track s \<noteq> [])))
   \<and> (status s = St_ok \<and> track s \<noteq> [] \<longrightarrow>
        writeCachedState s cache = cache(LAST_STATE_CACHE_KEY \<mapsto> JSON_stringify (state_value s)))
   \<and> (status s \<noteq> St_ok \<or> track s = [] \<longrightarrow> writeCachedState s cache = cache)
   \<and> ((menubarCache (fst (Command_effect platform exec now (v, st))) = menubarCache v
         \<and> (state (fst (Command_effect platform exec now (v, st))) = state v
             \<or> status (state (fst (Command_effect platform exec now (v, st)))) \<noteq> St_ok))
      \<or> (status (state (fst (Command_effect platform exec now (v, st)))) = St_ok
         \<and> track (state (fst (Command_effect platform exec now (v, st)))) \<noteq> []
         \<and> menubarCache (fst (Command_effect platform exec now (v, st)))
             = (menubarCache v)(LAST_STATE_CACHE_KEY \<mapsto>
                  JSON_stringify (state_value (state (fst (Command_effect platform exec now (v, st))))))))"
proof -
  have inv: "reachable platform w \<longrightarrow>
      (status (state w) = St_ok \<longrightarrow> track (state w) \<noteq> [])
      \<and> (menubarCache w LAST_STATE_CACHE_KEY = None
         \<or> (\<exists>s. menubarCache w LAST_STATE_CACHE_KEY = Some (JSON_stringify (state_value s))
                \<and> status s = St_ok \<and> track s \<noteq> []))"
    using reachable_invariant [of platform w] by blast
  have wr: "status s = St_ok \<and> track s \<noteq> [] \<longrightarrow>
        writeCachedState s cache = cache(LAST_STATE_CACHE_KEY \<mapsto> JSON_stringify (state_value s))"
    by (simp add: writeCachedState_def)
  have nowr: "status s \<noteq> St_ok \<or> track s = [] \<longrightarrow> writeCachedState s cache = cache"
    by (simp add: writeCachedState_def)
  note mirror = Command_effect_cases [of platform exec now v st]
  from inv wr nowr mirror show ?thesis
    by (intro conjI)
qed

theorem ok_implies_track_and_cache_mirrors_ok_only_witness:
  "reachable ''darwin''
     (fst (Command_effect ''darwin''
        (\<lambda>b. Resolved (Json_text (Obj [(''title'', Str ''Song''), (''album'', Str ''Album'')])) []) 0
        (Command_mount ''darwin'' Map.empty, \<lparr>items = Map.empty, fault = None\<rparr>)))
   \<and> status (state (fst (Command_effect ''darwin''
        (\<lambda>b. Resolved (Json_text (Obj [(''title'', Str ''Song''), (''album'', Str ''Album'')])) []) 0
        (Command_mount ''darwin'' Map.empty, \<lparr>items = Map.empty, fault = None\<rparr>)))) = St_ok
   \<and> track (state (fst (Command_effect ''darwin''
        (\<lambda>b. Resolved (Json_text (Obj [(''title'', Str ''Song''), (''album'', Str ''Album'')])) []) 0
        (Command_mount ''darwin'' Map.empty, \<lparr>items = Map.empty, fault = None\<rparr>)))) \<noteq> []
   \<and> writeCachedState
        \<lparr>track = ''Song'', artist = [], album = ''Album'', artworkUrl = [], status = St_ok,
         state_error = None\<rparr> Map.empty LAST_STATE_CACHE_KEY
      = Some (Json_text (Obj [(''track'', Str ''Song''), (''artist'', Str []),
                (''album'', Str ''Album''), (''artworkUrl'', Str []), (''status'', Str ''ok'')]))
   \<and> writeCachedState
        \<lparr>track = [], artist = [], album = [], artworkUrl = [], status = St_no_track,
         state_error = None\<rparr> Map.empty LAST_STATE_CACHE_KEY
      = None"
proof -
  let ?exec = "\<lambda>b::string. Resolved (Json_text (Obj [(''title'', Str ''Song''), (''album'', Str ''Album'')])) []"
  let ?st = "\<lparr>items = Map.empty, fault = None\<rparr>"
  let ?w = "fst (Command_effect ''darwin'' ?exec 0 (Command_mount ''darwin'' Map.empty, ?st))"
  let ?ok = "\<lparr>track = ''Song'', artist = [], album = ''Album'', artworkUrl = [], status = St_ok,
         state_error = None\<rparr>"
  let ?none = "\<lparr>track = [], artist = [], album = [], artworkUrl = [], status = St_no_track,
         state_error = None\<rparr>"
  have r: "reachable ''darwin'' ?w"
    by (rule reachable.effect [OF reachable.fresh])
  have ok: "status (state ?w) = St_ok"
    by code_simp
  from ok_implies_track_and_cache_mirrors_ok_only [of "''darwin''" ?w ?ok Map.empty] r ok
  have t: "track (state ?w) \<noteq> []"
    and w1: "writeCachedState ?ok Map.empty
        = Map.empty(LAST_STATE_CACHE_KEY \<mapsto> JSON_stringify (state_value ?ok))"
    by simp_all
  from ok_implies_track_and_cache_mirrors_ok_only [of "''darwin''" ?w ?none Map.empty]
  have w2: "writeCachedState ?none Map.empty = Map.empty"
    by simp
  from r ok t show ?thesis
    unfolding w1 w2 by (simp add: JSON_stringify_def state_value_def)
qed

end
